theory Spec2Isabelle
  imports Complex_Main "HOL-Library.Sublist" "HOL-Library.Multiset"
begin

section \<open>Usage aggregation and cost estimation of the Cloudflare observer\<close>

text \<open>
  The development embeds the cost engine of the repository: the pricing tables of
  \<^verbatim>\<open>src/lib/cloudflare/types.ts\<close>, the metric helpers that \<^verbatim>\<open>api.ts\<close> imports from
  \<^verbatim>\<open>./metrics\<close> (they follow the pricing tables in the sources), the date helpers of
  \<^verbatim>\<open>graphql.ts\<close>, and the seven product aggregators and the account aggregator of \<^verbatim>\<open>api.ts\<close>.

  Conventions of the embedding.
  \<^item> A JavaScript \<^verbatim>\<open>number\<close> that carries a counter, a size or a cost is a \<^typ>\<open>real\<close>: the
    arithmetic is the exact one, so IEEE rounding, infinities and NaN are outside the model.
  \<^item> A \<^verbatim>\<open>Date\<close> is its time value, an \<^typ>\<open>int\<close> of milliseconds since the epoch; the
    calendar functions are those of the ECMAScript specification. The local time zone is a
    fixed offset in milliseconds (no daylight saving change), and time values stay in the
    range where a \<^verbatim>\<open>Date\<close> is valid.
  \<^item> A thrown \<^verbatim>\<open>Error\<close> and a rejected promise are values \<open>Inl (Error message)\<close> of a sum
    type; a returned value and a fulfilled promise are \<open>Inr\<close>.
  \<^item> \<^verbatim>\<open>T | null\<close> is \<^typ>\<open>'a option\<close>.
  \<^item> The nested objects of the analytics groups (\<^verbatim>\<open>dimensions\<close>, \<^verbatim>\<open>sum\<close>, \<^verbatim>\<open>max\<close>,
    \<^verbatim>\<open>quantiles\<close>) are flattened: a record holds the leaf fields, prefixed by the product so
    that the field names stay distinct.
\<close>

subsection \<open>Data model (types.ts)\<close>

datatype error = Error string

record UsageMetric =
  name :: string
  current :: real
  limit :: real
  unit :: string
  percentage :: real
  overageCost :: real
  rate :: "string option"

record ProductUsage =
  product :: string
  metrics :: "UsageMetric list"
  totalOverageCost :: real

record ServiceError =
  service :: string
  message :: string

subsection \<open>Pricing tables (types.ts)\<close>

definition WORKERS_PAID_LIMITS_requestsPerMonth :: real where
  "WORKERS_PAID_LIMITS_requestsPerMonth = 10000000"
definition WORKERS_PAID_LIMITS_cpuMsPerMonth :: real where
  "WORKERS_PAID_LIMITS_cpuMsPerMonth = 30000000"
definition WORKERS_PAID_LIMITS_requestOveragePer1M :: real where
  "WORKERS_PAID_LIMITS_requestOveragePer1M = 3 / 10"
definition WORKERS_PAID_LIMITS_cpuOveragePer1M :: real where
  "WORKERS_PAID_LIMITS_cpuOveragePer1M = 2 / 100"
definition WORKERS_PAID_LIMITS_baseCost :: real where
  "WORKERS_PAID_LIMITS_baseCost = 5"

definition R2_LIMITS_storageGB :: real where
  "R2_LIMITS_storageGB = 10"
definition R2_LIMITS_classAOperations :: real where
  "R2_LIMITS_classAOperations = 1000000"
definition R2_LIMITS_classBOperations :: real where
  "R2_LIMITS_classBOperations = 10000000"
definition R2_LIMITS_storagePerGB :: real where
  "R2_LIMITS_storagePerGB = 15 / 1000"
definition R2_LIMITS_classAOveragePer1M :: real where
  "R2_LIMITS_classAOveragePer1M = 45 / 10"
definition R2_LIMITS_classBOveragePer1M :: real where
  "R2_LIMITS_classBOveragePer1M = 36 / 100"

definition KV_PAID_LIMITS_storageGB :: real where
  "KV_PAID_LIMITS_storageGB = 1"
definition KV_PAID_LIMITS_readsPerMonth :: real where
  "KV_PAID_LIMITS_readsPerMonth = 10000000"
definition KV_PAID_LIMITS_writesPerMonth :: real where
  "KV_PAID_LIMITS_writesPerMonth = 1000000"
definition KV_PAID_LIMITS_deletesPerMonth :: real where
  "KV_PAID_LIMITS_deletesPerMonth = 1000000"
definition KV_PAID_LIMITS_listsPerMonth :: real where
  "KV_PAID_LIMITS_listsPerMonth = 1000000"
definition KV_PAID_LIMITS_storagePerGB :: real where
  "KV_PAID_LIMITS_storagePerGB = 5 / 10"
definition KV_PAID_LIMITS_readOveragePer1M :: real where
  "KV_PAID_LIMITS_readOveragePer1M = 5 / 10"
definition KV_PAID_LIMITS_writeOveragePer1M :: real where
  "KV_PAID_LIMITS_writeOveragePer1M = 5"
definition KV_PAID_LIMITS_deleteOveragePer1M :: real where
  "KV_PAID_LIMITS_deleteOveragePer1M = 5"
definition KV_PAID_LIMITS_listOveragePer1M :: real where
  "KV_PAID_LIMITS_listOveragePer1M = 5"

definition D1_LIMITS_rowsReadPerMonth :: real where
  "D1_LIMITS_rowsReadPerMonth = 25000000000"
definition D1_LIMITS_rowsWrittenPerMonth :: real where
  "D1_LIMITS_rowsWrittenPerMonth = 50000000"
definition D1_LIMITS_storageGB :: real where
  "D1_LIMITS_storageGB = 5"
definition D1_LIMITS_rowsReadOveragePer1M :: real where
  "D1_LIMITS_rowsReadOveragePer1M = 1 / 1000"
definition D1_LIMITS_rowsWrittenOveragePer1M :: real where
  "D1_LIMITS_rowsWrittenOveragePer1M = 1"
definition D1_LIMITS_storageOveragePerGB :: real where
  "D1_LIMITS_storageOveragePerGB = 75 / 100"

definition IMAGES_LIMITS_deliveredPer100K :: real where
  "IMAGES_LIMITS_deliveredPer100K = 1"

definition WORKERS_AI_LIMITS_neuronsPerDay :: real where
  "WORKERS_AI_LIMITS_neuronsPerDay = 10000"
definition WORKERS_AI_LIMITS_neuronOveragePer1K :: real where
  "WORKERS_AI_LIMITS_neuronOveragePer1K = 11 / 1000"

definition VECTORIZE_LIMITS_queriedDimensionsPerMonth :: real where
  "VECTORIZE_LIMITS_queriedDimensionsPerMonth = 30000000"
definition VECTORIZE_LIMITS_storedDimensionsPerMonth :: real where
  "VECTORIZE_LIMITS_storedDimensionsPerMonth = 5000000"
definition VECTORIZE_LIMITS_queriedOveragePer1M :: real where
  "VECTORIZE_LIMITS_queriedOveragePer1M = 1 / 100"
definition VECTORIZE_LIMITS_storedOveragePer1M :: real where
  "VECTORIZE_LIMITS_storedOveragePer1M = 5 / 100"

lemmas limits_defs =
  WORKERS_PAID_LIMITS_requestsPerMonth_def WORKERS_PAID_LIMITS_cpuMsPerMonth_def
  WORKERS_PAID_LIMITS_requestOveragePer1M_def WORKERS_PAID_LIMITS_cpuOveragePer1M_def
  WORKERS_PAID_LIMITS_baseCost_def
  R2_LIMITS_storageGB_def R2_LIMITS_classAOperations_def R2_LIMITS_classBOperations_def
  R2_LIMITS_storagePerGB_def R2_LIMITS_classAOveragePer1M_def R2_LIMITS_classBOveragePer1M_def
  KV_PAID_LIMITS_storageGB_def KV_PAID_LIMITS_readsPerMonth_def KV_PAID_LIMITS_writesPerMonth_def
  KV_PAID_LIMITS_deletesPerMonth_def KV_PAID_LIMITS_listsPerMonth_def
  KV_PAID_LIMITS_storagePerGB_def KV_PAID_LIMITS_readOveragePer1M_def
  KV_PAID_LIMITS_writeOveragePer1M_def KV_PAID_LIMITS_deleteOveragePer1M_def
  KV_PAID_LIMITS_listOveragePer1M_def
  D1_LIMITS_rowsReadPerMonth_def D1_LIMITS_rowsWrittenPerMonth_def D1_LIMITS_storageGB_def
  D1_LIMITS_rowsReadOveragePer1M_def D1_LIMITS_rowsWrittenOveragePer1M_def
  D1_LIMITS_storageOveragePerGB_def
  IMAGES_LIMITS_deliveredPer100K_def
  WORKERS_AI_LIMITS_neuronsPerDay_def WORKERS_AI_LIMITS_neuronOveragePer1K_def
  VECTORIZE_LIMITS_queriedDimensionsPerMonth_def VECTORIZE_LIMITS_storedDimensionsPerMonth_def
  VECTORIZE_LIMITS_queriedOveragePer1M_def VECTORIZE_LIMITS_storedOveragePer1M_def

subsection \<open>Time values and the calendar of ECMAScript dates\<close>

definition msPerDay :: int where "msPerDay = 86400000"
definition msPerHour :: int where "msPerHour = 3600000"
definition msPerMinute :: int where "msPerMinute = 60000"
definition msPerSecond :: int where "msPerSecond = 1000"

definition Day :: "int \<Rightarrow> int" where
  "Day t = t div msPerDay"

definition TimeWithinDay :: "int \<Rightarrow> int" where
  "TimeWithinDay t = t mod msPerDay"

definition DaysInYear :: "int \<Rightarrow> int" where
  "DaysInYear y =
     (if y mod 4 \<noteq> 0 then 365
      else if y mod 100 \<noteq> 0 then 366
      else if y mod 400 \<noteq> 0 then 365
      else 366)"

definition DayFromYear :: "int \<Rightarrow> int" where
  "DayFromYear y =
     365 * (y - 1970) + (y - 1969) div 4 - (y - 1901) div 100 + (y - 1601) div 400"

lemma div_succ:
  fixes a n :: int
  assumes "0 < n"
  shows "(a + 1) div n = a div n + (if (a + 1) mod n = 0 then 1 else 0)"
proof -
  define q where "q = a div n"
  define r where "r = a mod n"
  have a: "a = n * q + r" by (simp add: q_def r_def)
  have r: "0 \<le> r" "r < n" using assms by (simp_all add: r_def)
  show ?thesis
  proof (cases "r + 1 = n")
    case True
    have "a + 1 = n * q + (r + 1)" using a by simp
    also have "\<dots> = n * q + n" by (simp only: True)
    also have "\<dots> = n * (q + 1)" by (simp add: algebra_simps)
    finally have e: "a + 1 = n * (q + 1)" .
    have "(a + 1) div n = q + 1" "(a + 1) mod n = 0"
      using assms by (simp_all add: e)
    then show ?thesis by (simp add: q_def)
  next
    case False
    then have lt: "r + 1 < n" using r by simp
    have e: "a + 1 = n * q + (r + 1)" using a by simp
    have "(a + 1) div n = q + (r + 1) div n" "(a + 1) mod n = (r + 1) mod n"
      using assms by (simp_all add: e)
    moreover have "(r + 1) div n = 0" "(r + 1) mod n = r + 1"
      using lt r by simp_all
    ultimately show ?thesis using r by (simp add: q_def)
  qed
qed

lemma shift_mod:
  fixes y :: int
  shows "(y - 1968) mod 4 = y mod 4" "(y - 1900) mod 100 = y mod 100"
    "(y - 1600) mod 400 = y mod 400"
proof -
  have "(y - 4 * 492) mod 4 = y mod 4" by (rule mod_diff_eq [THEN sym, THEN trans]) simp
  then show "(y - 1968) mod 4 = y mod 4" by simp
  have "(y - 100 * 19) mod 100 = y mod 100" by (rule mod_diff_eq [THEN sym, THEN trans]) simp
  then show "(y - 1900) mod 100 = y mod 100" by simp
  have "(y - 400 * 4) mod 400 = y mod 400" by (rule mod_diff_eq [THEN sym, THEN trans]) simp
  then show "(y - 1600) mod 400 = y mod 400" by simp
qed

lemma year_step4:
  "((y::int) - 1968) div 4 = (y - 1969) div 4 + (if y mod 4 = 0 then 1 else 0)"
proof -
  have e: "y - 1969 + 1 = y - 1968" by simp
  show ?thesis
    using div_succ [of 4 "y - 1969"] unfolding e shift_mod by simp
qed

lemma year_step100:
  "((y::int) - 1900) div 100 = (y - 1901) div 100 + (if y mod 100 = 0 then 1 else 0)"
proof -
  have e: "y - 1901 + 1 = y - 1900" by simp
  show ?thesis
    using div_succ [of 100 "y - 1901"] unfolding e shift_mod by simp
qed

lemma year_step400:
  "((y::int) - 1600) div 400 = (y - 1601) div 400 + (if y mod 400 = 0 then 1 else 0)"
proof -
  have e: "y - 1601 + 1 = y - 1600" by simp
  show ?thesis
    using div_succ [of 400 "y - 1601"] unfolding e shift_mod by simp
qed

lemma mod_100_4: "(y::int) mod 100 = 0 \<Longrightarrow> y mod 4 = 0"
  using mod_mod_cancel [of 4 100 y] by simp

lemma mod_400_100: "(y::int) mod 400 = 0 \<Longrightarrow> y mod 100 = 0"
  using mod_mod_cancel [of 100 400 y] by simp

lemma DayFromYear_Suc: "DayFromYear (y + 1) = DayFromYear y + DaysInYear y"
proof -
  have s: "DayFromYear (y + 1) =
     365 * (y - 1970) + 365 + (y - 1968) div 4 - (y - 1900) div 100 + (y - 1600) div 400"
    by (simp add: DayFromYear_def)
  have d: "DayFromYear y =
     365 * (y - 1970) + (y - 1969) div 4 - (y - 1901) div 100 + (y - 1601) div 400"
    by (simp add: DayFromYear_def)
  show ?thesis
  proof (cases "y mod 4 = 0")
    case False
    then have "y mod 100 \<noteq> 0" "y mod 400 \<noteq> 0"
      using mod_100_4 [of y] mod_400_100 [of y] by metis+
    with False show ?thesis
      unfolding s d year_step4 year_step100 year_step400 DaysInYear_def by simp
  next
    case m4: True
    show ?thesis
    proof (cases "y mod 100 = 0")
      case False
      then have "y mod 400 \<noteq> 0" using mod_400_100 [of y] by metis
      with m4 False show ?thesis
        unfolding s d year_step4 year_step100 year_step400 DaysInYear_def by simp
    next
      case m100: True
      show ?thesis
      proof (cases "y mod 400 = 0")
        case False
        with m4 m100 show ?thesis
          unfolding s d year_step4 year_step100 year_step400 DaysInYear_def by simp
      next
        case True
        with m4 m100 show ?thesis
          unfolding s d year_step4 year_step100 year_step400 DaysInYear_def by simp
      qed
    qed
  qed
qed

lemma DayFromYear_less: "DayFromYear y < DayFromYear (y + 1)"
  by (simp add: DayFromYear_Suc DaysInYear_def)

text \<open>
  \<^verbatim>\<open>YearFromTime(t)\<close> is the largest year \<open>y\<close> with \<open>TimeFromYear(y) \<le> t\<close>. It is found by
  a search upwards from a year that is not after the day: every year has at least 365 and
  at most 366 days.
\<close>

function yearSearch :: "int \<Rightarrow> int \<Rightarrow> int" where
  "yearSearch d y = (if DayFromYear (y + 1) \<le> d then yearSearch d (y + 1) else y)"
  by pat_completeness auto
termination
proof (relation "measure (\<lambda>(d, y). nat (d - DayFromYear y))")
  show "wf (measure (\<lambda>(d, y). nat (d - DayFromYear y)))" by simp
next
  fix d y :: int
  assume "DayFromYear (y + 1) \<le> d"
  then show "((d, y + 1), (d, y)) \<in> measure (\<lambda>(d, y). nat (d - DayFromYear y))"
    using DayFromYear_less [of y] by simp
qed

declare yearSearch.simps [simp del]

definition YearFromDay :: "int \<Rightarrow> int" where
  "YearFromDay d = yearSearch d (1970 + (if 0 \<le> d then d div 366 else d div 365))"

definition YearFromTime :: "int \<Rightarrow> int" where
  "YearFromTime t = YearFromDay (Day t)"

definition InLeapYear :: "int \<Rightarrow> int" where
  "InLeapYear t = (if DaysInYear (YearFromTime t) = 366 then 1 else 0)"

definition DayWithinYear :: "int \<Rightarrow> int" where
  "DayWithinYear t = Day t - DayFromYear (YearFromTime t)"

definition MonthFromTime :: "int \<Rightarrow> int" where
  "MonthFromTime t =
     (let d = DayWithinYear t; l = InLeapYear t in
      if d < 31 then 0
      else if d < 59 + l then 1
      else if d < 90 + l then 2
      else if d < 120 + l then 3
      else if d < 151 + l then 4
      else if d < 181 + l then 5
      else if d < 212 + l then 6
      else if d < 243 + l then 7
      else if d < 273 + l then 8
      else if d < 304 + l then 9
      else if d < 334 + l then 10
      else 11)"

definition DateFromTime :: "int \<Rightarrow> int" where
  "DateFromTime t =
     (let d = DayWithinYear t; l = InLeapYear t; m = MonthFromTime t in
      if m = 0 then d + 1
      else if m = 1 then d - 30
      else if m = 2 then d - 58 - l
      else if m = 3 then d - 89 - l
      else if m = 4 then d - 119 - l
      else if m = 5 then d - 150 - l
      else if m = 6 then d - 180 - l
      else if m = 7 then d - 211 - l
      else if m = 8 then d - 242 - l
      else if m = 9 then d - 272 - l
      else if m = 10 then d - 303 - l
      else d - 333 - l)"

definition HourFromTime :: "int \<Rightarrow> int" where
  "HourFromTime t = (t div msPerHour) mod 24"

definition MinFromTime :: "int \<Rightarrow> int" where
  "MinFromTime t = (t div msPerMinute) mod 60"

definition SecFromTime :: "int \<Rightarrow> int" where
  "SecFromTime t = (t div msPerSecond) mod 60"

definition msFromTime :: "int \<Rightarrow> int" where
  "msFromTime t = t mod msPerSecond"

definition MakeTime :: "int \<Rightarrow> int \<Rightarrow> int \<Rightarrow> int \<Rightarrow> int" where
  "MakeTime h m s milli = h * msPerHour + m * msPerMinute + s * msPerSecond + milli"

text \<open>
  \<^verbatim>\<open>MakeDay(year, month, date)\<close>: the day number of the first day of month \<open>month mod 12\<close> of
  the year \<open>year + month div 12\<close>, plus \<open>date - 1\<close>.
\<close>

definition monthStartDay :: "int \<Rightarrow> int \<Rightarrow> int" where
  "monthStartDay mn l =
     (if mn = 0 then 0
      else if mn = 1 then 31
      else if mn = 2 then 59 + l
      else if mn = 3 then 90 + l
      else if mn = 4 then 120 + l
      else if mn = 5 then 151 + l
      else if mn = 6 then 181 + l
      else if mn = 7 then 212 + l
      else if mn = 8 then 243 + l
      else if mn = 9 then 273 + l
      else if mn = 10 then 304 + l
      else 334 + l)"

definition MakeDay :: "int \<Rightarrow> int \<Rightarrow> int \<Rightarrow> int" where
  "MakeDay year month date =
     (let ym = year + month div 12;
          mn = month mod 12;
          l = (if DaysInYear ym = 366 then 1 else 0)
      in DayFromYear ym + monthStartDay mn l + date - 1)"

definition MakeDate :: "int \<Rightarrow> int \<Rightarrow> int" where
  "MakeDate day time = day * msPerDay + time"

definition LocalTime :: "int \<Rightarrow> int \<Rightarrow> int" where
  "LocalTime tza t = t + tza"

definition UTC :: "int \<Rightarrow> int \<Rightarrow> int" where
  "UTC tza t = t - tza"

subsection \<open>The methods of \<^verbatim>\<open>Date\<close> that the source calls\<close>

definition getFullYear :: "int \<Rightarrow> int \<Rightarrow> int" where
  "getFullYear tza t = YearFromTime (LocalTime tza t)"

definition getMonth :: "int \<Rightarrow> int \<Rightarrow> int" where
  "getMonth tza t = MonthFromTime (LocalTime tza t)"

definition getDate :: "int \<Rightarrow> int \<Rightarrow> int" where
  "getDate tza t = DateFromTime (LocalTime tza t)"

definition getUTCMonth :: "int \<Rightarrow> int" where
  "getUTCMonth t = MonthFromTime t"

text \<open>\<^verbatim>\<open>new Date(year, month, date)\<close>: local midnight; a year from 0 to 99 means 1900 + year.\<close>

definition newDate :: "int \<Rightarrow> int \<Rightarrow> int \<Rightarrow> int \<Rightarrow> int" where
  "newDate tza year month date =
     (let yr = (if 0 \<le> year \<and> year \<le> 99 then 1900 + year else year)
      in UTC tza (MakeDate (MakeDay yr month date) (MakeTime 0 0 0 0)))"

definition setUTCDate :: "int \<Rightarrow> int \<Rightarrow> int" where
  "setUTCDate t dt = MakeDate (MakeDay (YearFromTime t) (MonthFromTime t) dt) (TimeWithinDay t)"

definition setUTCMonth :: "int \<Rightarrow> int \<Rightarrow> int" where
  "setUTCMonth t m = MakeDate (MakeDay (YearFromTime t) m (DateFromTime t)) (TimeWithinDay t)"

definition setUTCHours :: "int \<Rightarrow> int \<Rightarrow> int \<Rightarrow> int \<Rightarrow> int \<Rightarrow> int" where
  "setUTCHours t h m s milli = MakeDate (Day t) (MakeTime h m s milli)"

definition digitChar :: "int \<Rightarrow> char" where
  "digitChar d = ''0123456789'' ! nat d"

definition twoDigits :: "int \<Rightarrow> string" where
  "twoDigits v = [digitChar (v div 10 mod 10), digitChar (v mod 10)]"

definition threeDigits :: "int \<Rightarrow> string" where
  "threeDigits v = digitChar (v div 100 mod 10) # twoDigits v"

definition fourDigits :: "int \<Rightarrow> string" where
  "fourDigits v = digitChar (v div 1000 mod 10) # threeDigits v"

definition sixDigits :: "int \<Rightarrow> string" where
  "sixDigits v = digitChar (v div 100000 mod 10) # digitChar (v div 10000 mod 10) # fourDigits v"

text \<open>
  \<^verbatim>\<open>toISOString\<close>: \<^verbatim>\<open>YYYY-MM-DDTHH:mm:ss.sssZ\<close> in UTC, the year with a sign and six digits
  outside 0 to 9999.
\<close>

definition toISOString :: "int \<Rightarrow> string" where
  "toISOString t =
     (let y = YearFromTime t;
          year = (if 0 \<le> y \<and> y \<le> 9999 then fourDigits y
                  else if y < 0 then CHR ''-'' # sixDigits (- y)
                  else CHR ''+'' # sixDigits y)
      in year @ ''-'' @ twoDigits (MonthFromTime t + 1) @ ''-'' @ twoDigits (DateFromTime t)
         @ ''T'' @ twoDigits (HourFromTime t) @ '':'' @ twoDigits (MinFromTime t)
         @ '':'' @ twoDigits (SecFromTime t) @ ''.'' @ threeDigits (msFromTime t) @ ''Z'')"

subsection \<open>Date helpers (graphql.ts)\<close>

definition getMonthStart :: "int \<Rightarrow> string" where
  "getMonthStart now =
     (let date = now;
          date = setUTCDate date 1;
          date = setUTCHours date 0 0 0 0
      in toISOString date)"

definition getMonthEnd :: "int \<Rightarrow> string" where
  "getMonthEnd now =
     (let date = now;
          date = setUTCMonth date (getUTCMonth date + 1);
          date = setUTCDate date 0;
          date = setUTCHours date 23 59 59 999
      in toISOString date)"

subsection \<open>Overage calculators and metric builders (metrics)\<close>

definition calculateOverage :: "real \<Rightarrow> real \<Rightarrow> real \<Rightarrow> real" where
  "calculateOverage cur lmt costPer1M =
     (let overage = max 0 (cur - lmt) in (overage / 1000000) * costPer1M)"

definition calculateStorageOverage :: "real \<Rightarrow> real \<Rightarrow> real \<Rightarrow> real" where
  "calculateStorageOverage currentGB limitGB costPerGB =
     (let overage = max 0 (currentGB - limitGB) in overage * costPerGB)"

definition calculatePer100KCost :: "real \<Rightarrow> real \<Rightarrow> real" where
  "calculatePer100KCost cur costPer100K = (cur / 100000) * costPer100K"

definition calculatePer1KCost :: "real \<Rightarrow> real \<Rightarrow> real \<Rightarrow> real" where
  "calculatePer1KCost cur lmt costPer1K =
     (let overage = max 0 (cur - lmt) in (overage / 1000) * costPer1K)"

record MetricInput =
  mi_name :: string
  mi_current :: real
  mi_limit :: real
  mi_unit :: string
  mi_rate :: string

definition buildMetric :: "MetricInput \<Rightarrow> real \<Rightarrow> UsageMetric" where
  "buildMetric input overage =
     \<lparr> name = mi_name input,
       current = mi_current input,
       limit = mi_limit input,
       unit = mi_unit input,
       percentage =
         (if mi_limit input > 0 then (mi_current input / mi_limit input) * 100 else 0),
       overageCost = overage,
       rate = Some (mi_rate input) \<rparr>"

definition buildProductUsage :: "string \<Rightarrow> UsageMetric list \<Rightarrow> ProductUsage" where
  "buildProductUsage productName ms =
     (let total = foldl (\<lambda>sum m. sum + overageCost m) 0 ms
      in \<lparr> product = productName, metrics = ms, totalOverageCost = total \<rparr>)"

definition sumField :: "'a list \<Rightarrow> ('a \<Rightarrow> real) \<Rightarrow> real" where
  "sumField items getter = foldl (\<lambda>sum item. sum + getter item) 0 items"

definition maxField :: "'a list \<Rightarrow> ('a \<Rightarrow> real) \<Rightarrow> real" where
  "maxField items getter = foldl (\<lambda>mx item. max mx (getter item)) 0 items"

text \<open>
  Modelled from the spec: \<^verbatim>\<open>bytesToGB\<close> is imported from \<^verbatim>\<open>@/lib/formatters\<close>, a file of the
  repository that is not among the sources. The specification says that bytes are converted
  to GB by division by \<open>1024\<^sup>3\<close>; the earlier inlined form of the aggregators computes
  \<^verbatim>\<open>storageBytes / (1024 * 1024 * 1024)\<close>.
\<close>

definition bytesToGB :: "real \<Rightarrow> real" where
  "bytesToGB bytes = bytes / (1024 * 1024 * 1024)"

subsection \<open>The calculators as the specification words them\<close>

text \<open>
  The specification asks the four calculators to reject a negative \<open>current\<close> or \<open>limit\<close>.
  These four definitions follow the specification's words; they are compared with the
  calculators of the source below.
\<close>

definition contractViolation :: error where
  "contractViolation = Error ''negative input''"

definition spec_calculateOverage :: "real \<Rightarrow> real \<Rightarrow> real \<Rightarrow> error + real" where
  "spec_calculateOverage cur lmt r =
     (if cur < 0 \<or> lmt < 0 then Inl contractViolation
      else Inr (max 0 (cur - lmt) / 1000000 * r))"

definition spec_calculateStorageOverage :: "real \<Rightarrow> real \<Rightarrow> real \<Rightarrow> error + real" where
  "spec_calculateStorageOverage cur lmt r =
     (if cur < 0 \<or> lmt < 0 then Inl contractViolation
      else Inr (max 0 (cur - lmt) * r))"

definition spec_calculatePer100KCost :: "real \<Rightarrow> real \<Rightarrow> error + real" where
  "spec_calculatePer100KCost cur r =
     (if cur < 0 then Inl contractViolation else Inr (cur / 100000 * r))"

definition spec_calculatePer1KCost :: "real \<Rightarrow> real \<Rightarrow> real \<Rightarrow> error + real" where
  "spec_calculatePer1KCost cur lmt r =
     (if cur < 0 \<or> lmt < 0 then Inl contractViolation
      else Inr (max 0 (cur - lmt) / 1000 * r))"


subsection \<open>Strings: \<^verbatim>\<open>toLowerCase\<close> and \<^verbatim>\<open>includes\<close>\<close>

text \<open>
  An action-type label is a \<^typ>\<open>string\<close>, the bytes of the JavaScript string.
  \<^verbatim>\<open>toLowerCase\<close> maps the letters \<open>A\<close> to \<open>Z\<close> to \<open>a\<close> to \<open>z\<close> and keeps every other
  character; \<^verbatim>\<open>s.includes(t)\<close> holds when \<open>t\<close> occurs in \<open>s\<close> as a contiguous block.
  Outside ASCII, JavaScript lower-cases two characters to an ASCII letter: the Kelvin sign to
  \<open>k\<close>, and the capital dotted I to \<open>i\<close> followed by a combining dot. No pattern of the KV
  classifier contains \<open>k\<close>, and in each of them the letter \<open>i\<close> is followed by a letter, so
  keeping these characters does not change which patterns a label contains.
\<close>

definition lowerChar :: "char \<Rightarrow> char" where
  "lowerChar c =
     (case map_of (zip ''ABCDEFGHIJKLMNOPQRSTUVWXYZ'' ''abcdefghijklmnopqrstuvwxyz'') c of
        None \<Rightarrow> c
      | Some l \<Rightarrow> l)"

definition toLowerCase :: "string \<Rightarrow> string" where
  "toLowerCase s = map lowerChar s"

fun includes_str :: "string \<Rightarrow> string \<Rightarrow> bool" where
  "includes_str [] t = (t = [])"
| "includes_str (c # s) t = (prefix t (c # s) \<or> includes_str s t)"

subsection \<open>Analytics groups and responses (types.ts, graphql.ts)\<close>

record R2OperationsGroup =
  r2_actionType :: string
  r2_requests :: real

record R2StorageGroup =
  r2_payloadSize :: real
  r2_metadataSize :: real
  r2_objectCount :: real

record KVOperationsGroup =
  kv_actionType :: string
  kv_requests :: real

record KVStorageGroup =
  kv_byteCount :: real
  kv_keyCount :: real

record D1AnalyticsGroup =
  d1_readQueries :: real
  d1_writeQueries :: real
  d1_rowsRead :: real
  d1_rowsWritten :: real
  d1_databaseSizeBytes :: real
  d1_databaseId :: string

record D1StorageGroup =
  d1s_databaseSizeBytes :: real
  d1s_databaseId :: string

record WorkersInvocation =
  w_requests :: real
  w_cpuTimeP50 :: real

record ImagesRequestsGroup =
  img_requests :: real

record AIInferenceGroup =
  ai_totalNeurons :: real

record VectorizeQueriesGroup =
  vq_queriedVectorDimensions :: real

record VectorizeStorageGroup =
  vs_storedVectorDimensions :: real

text \<open>
  A response of the analytics source is the array \<^verbatim>\<open>data.viewer.accounts\<close>; every account
  of a query holds one array of groups, so a response is a list of lists of groups.
  \<open>groupsOf\<close> is the expression \<^verbatim>\<open>extractAccountData(data)?.field ?? []\<close>.
\<close>

type_synonym 'g GraphQLResponse = "'g list list"

definition extractAccountData :: "'a list \<Rightarrow> 'a option" where
  "extractAccountData accounts = (case accounts of [] \<Rightarrow> None | a # _ \<Rightarrow> Some a)"

definition groupsOf :: "'g GraphQLResponse \<Rightarrow> 'g list" where
  "groupsOf data = (case extractAccountData data of None \<Rightarrow> [] | Some groups \<Rightarrow> groups)"

record env =
  CLOUDFLARE_ACCOUNT_ID :: "string option"
  CLOUDFLARE_API_TOKEN :: "string option"

definition getAccountId :: "env \<Rightarrow> error + string" where
  "getAccountId e =
     (case CLOUDFLARE_ACCOUNT_ID e of
        None \<Rightarrow> Inl (Error ''Missing CLOUDFLARE_ACCOUNT_ID'')
      | Some accountId \<Rightarrow>
          if accountId = [] then Inl (Error ''Missing CLOUDFLARE_ACCOUNT_ID'')
          else Inr accountId)"

subsection \<open>Product aggregators (api.ts)\<close>

text \<open>
  Every aggregator reads the account id, awaits its queries and then computes. The awaited
  result of the queries is an argument: \<open>Inl\<close> when \<^verbatim>\<open>fetchGraphQL\<close> (or \<^verbatim>\<open>Promise.all\<close> of
  two of them) rejects, \<open>Inr\<close> with the responses otherwise. The computation after the
  \<^verbatim>\<open>await\<close> is a definition of its own (\<open>r2Usage\<close>, \<open>workersUsage\<close>, ...). The query strings,
  and with them \<^verbatim>\<open>monthStart\<close>, do not reach the result.
\<close>

definition R2_CLASS_A_OPERATIONS :: "string list" where
  "R2_CLASS_A_OPERATIONS =
     [''ListBuckets'', ''PutBucket'', ''ListObjects'', ''PutObject'', ''CopyObject'',
      ''CompleteMultipartUpload'', ''CreateMultipartUpload'', ''ListMultipartUploads'',
      ''UploadPart'', ''UploadPartCopy'', ''ListParts'', ''PutBucketEncryption'',
      ''PutBucketCors'', ''PutBucketLifecycleConfiguration'']"

definition R2_CLASS_B_OPERATIONS :: "string list" where
  "R2_CLASS_B_OPERATIONS =
     [''HeadBucket'', ''HeadObject'', ''GetObject'', ''UsageSummary'', ''GetBucketEncryption'',
      ''GetBucketLocation'', ''GetBucketCors'', ''GetBucketLifecycleConfiguration'',
      ''DeleteObject'', ''DeleteBucket'', ''AbortMultipartUpload'']"

text \<open>The body of the \<^verbatim>\<open>forEach\<close> over the R2 operations, on the pair of the two totals.\<close>

definition r2Step :: "real \<times> real \<Rightarrow> R2OperationsGroup \<Rightarrow> real \<times> real" where
  "r2Step totals item =
     (case totals of (classATotal, classBTotal) \<Rightarrow>
        let action = r2_actionType item in
        if List.member R2_CLASS_A_OPERATIONS action then (classATotal + r2_requests item, classBTotal)
        else if List.member R2_CLASS_B_OPERATIONS action then (classATotal, classBTotal + r2_requests item)
        else (classATotal, classBTotal))"

definition r2Usage :: "R2OperationsGroup list \<Rightarrow> R2StorageGroup list \<Rightarrow> ProductUsage" where
  "r2Usage operations storage =
     (case foldl r2Step (0, 0) operations of (classATotal, classBTotal) \<Rightarrow>
      let storageGB = bytesToGB (case storage of [] \<Rightarrow> 0 | g # _ \<Rightarrow> r2_payloadSize g);
          classAOverage = calculateOverage classATotal R2_LIMITS_classAOperations R2_LIMITS_classAOveragePer1M;
          classBOverage = calculateOverage classBTotal R2_LIMITS_classBOperations R2_LIMITS_classBOveragePer1M;
          storageOverage = calculateStorageOverage storageGB R2_LIMITS_storageGB R2_LIMITS_storagePerGB
      in buildProductUsage ''R2 Storage''
        [buildMetric \<lparr> mi_name = ''Class A Operations'', mi_current = classATotal,
            mi_limit = R2_LIMITS_classAOperations, mi_unit = ''requests'',
            mi_rate = ''$4.50/1M requests'' \<rparr> classAOverage,
         buildMetric \<lparr> mi_name = ''Class B Operations'', mi_current = classBTotal,
            mi_limit = R2_LIMITS_classBOperations, mi_unit = ''requests'',
            mi_rate = ''$0.36/1M requests'' \<rparr> classBOverage,
         buildMetric \<lparr> mi_name = ''Storage'', mi_current = storageGB,
            mi_limit = R2_LIMITS_storageGB, mi_unit = ''GB'',
            mi_rate = ''$0.015/GB-month'' \<rparr> storageOverage])"

definition fetchR2Usage ::
  "env \<Rightarrow> error + R2OperationsGroup GraphQLResponse \<times> R2StorageGroup GraphQLResponse
     \<Rightarrow> error + ProductUsage option" where
  "fetchR2Usage e fetched =
     (case getAccountId e of
        Inl err \<Rightarrow> Inl err
      | Inr accountId \<Rightarrow>
          (case fetched of
             Inl err \<Rightarrow> Inl err
           | Inr (opsData, storageData) \<Rightarrow>
               Inr (Some (r2Usage (groupsOf opsData) (groupsOf storageData)))))"

definition workersStep :: "real \<times> real \<Rightarrow> WorkersInvocation \<Rightarrow> real \<times> real" where
  "workersStep totals item =
     (case totals of (totalRequests, totalCpuUs) \<Rightarrow>
        (totalRequests + w_requests item, totalCpuUs + w_cpuTimeP50 item * w_requests item))"

definition workersUsage :: "WorkersInvocation list \<Rightarrow> ProductUsage" where
  "workersUsage invocations =
     (case foldl workersStep (0, 0) invocations of (totalRequests, totalCpuUs) \<Rightarrow>
      let totalCpuMs = totalCpuUs / 1000;
          requestsOverage = calculateOverage totalRequests WORKERS_PAID_LIMITS_requestsPerMonth
             WORKERS_PAID_LIMITS_requestOveragePer1M;
          cpuOverage = calculateOverage totalCpuMs WORKERS_PAID_LIMITS_cpuMsPerMonth
             WORKERS_PAID_LIMITS_cpuOveragePer1M
      in buildProductUsage ''Workers''
        [buildMetric \<lparr> mi_name = ''Requests'', mi_current = totalRequests,
            mi_limit = WORKERS_PAID_LIMITS_requestsPerMonth, mi_unit = ''requests'',
            mi_rate = ''$0.30/1M requests'' \<rparr> requestsOverage,
         buildMetric \<lparr> mi_name = ''CPU Time (est.)'', mi_current = totalCpuMs,
            mi_limit = WORKERS_PAID_LIMITS_cpuMsPerMonth, mi_unit = ''ms'',
            mi_rate = ''$0.02/1M ms'' \<rparr> cpuOverage])"

definition fetchWorkersUsage ::
  "env \<Rightarrow> error + WorkersInvocation GraphQLResponse \<Rightarrow> error + ProductUsage option" where
  "fetchWorkersUsage e fetched =
     (case getAccountId e of
        Inl err \<Rightarrow> Inl err
      | Inr accountId \<Rightarrow>
          (case fetched of
             Inl err \<Rightarrow> Inl err
           | Inr data \<Rightarrow> Inr (Some (workersUsage (groupsOf data)))))"

record KVTotals =
  reads :: real
  writes :: real
  deletes :: real
  lists :: real

text \<open>The body of the \<^verbatim>\<open>forEach\<close> over the KV operations, on the four running totals.\<close>

definition kvStep :: "KVTotals \<Rightarrow> KVOperationsGroup \<Rightarrow> KVTotals" where
  "kvStep t item =
     (let action = toLowerCase (kv_actionType item) in
      if includes_str action ''read'' \<or> includes_str action ''get''
        then t\<lparr>reads := reads t + kv_requests item\<rparr>
      else if includes_str action ''write'' \<or> includes_str action ''put''
        then t\<lparr>writes := writes t + kv_requests item\<rparr>
      else if includes_str action ''delete''
        then t\<lparr>deletes := deletes t + kv_requests item\<rparr>
      else if includes_str action ''list''
        then t\<lparr>lists := lists t + kv_requests item\<rparr>
      else t)"

definition kvTotals :: "KVOperationsGroup list \<Rightarrow> KVTotals" where
  "kvTotals operations =
     foldl kvStep \<lparr> reads = 0, writes = 0, deletes = 0, lists = 0 \<rparr> operations"

definition kvUsage :: "KVOperationsGroup list \<Rightarrow> KVStorageGroup list \<Rightarrow> ProductUsage" where
  "kvUsage operations storage =
     (let t = kvTotals operations;
          storageGB = bytesToGB (case storage of [] \<Rightarrow> 0 | g # _ \<Rightarrow> kv_byteCount g);
          readsOverage = calculateOverage (reads t) KV_PAID_LIMITS_readsPerMonth KV_PAID_LIMITS_readOveragePer1M;
          writesOverage = calculateOverage (writes t) KV_PAID_LIMITS_writesPerMonth KV_PAID_LIMITS_writeOveragePer1M;
          deletesOverage = calculateOverage (deletes t) KV_PAID_LIMITS_deletesPerMonth KV_PAID_LIMITS_deleteOveragePer1M;
          listsOverage = calculateOverage (lists t) KV_PAID_LIMITS_listsPerMonth KV_PAID_LIMITS_listOveragePer1M;
          storageOverage = calculateStorageOverage storageGB KV_PAID_LIMITS_storageGB KV_PAID_LIMITS_storagePerGB
      in buildProductUsage ''Workers KV''
        [buildMetric \<lparr> mi_name = ''Reads'', mi_current = reads t,
            mi_limit = KV_PAID_LIMITS_readsPerMonth, mi_unit = ''requests'',
            mi_rate = ''$0.50/1M reads'' \<rparr> readsOverage,
         buildMetric \<lparr> mi_name = ''Writes'', mi_current = writes t,
            mi_limit = KV_PAID_LIMITS_writesPerMonth, mi_unit = ''requests'',
            mi_rate = ''$5.00/1M writes'' \<rparr> writesOverage,
         buildMetric \<lparr> mi_name = ''Deletes'', mi_current = deletes t,
            mi_limit = KV_PAID_LIMITS_deletesPerMonth, mi_unit = ''requests'',
            mi_rate = ''$5.00/1M deletes'' \<rparr> deletesOverage,
         buildMetric \<lparr> mi_name = ''Lists'', mi_current = lists t,
            mi_limit = KV_PAID_LIMITS_listsPerMonth, mi_unit = ''requests'',
            mi_rate = ''$5.00/1M lists'' \<rparr> listsOverage,
         buildMetric \<lparr> mi_name = ''Storage'', mi_current = storageGB,
            mi_limit = KV_PAID_LIMITS_storageGB, mi_unit = ''GB'',
            mi_rate = ''$0.50/GB-month'' \<rparr> storageOverage])"

definition fetchKVUsage ::
  "env \<Rightarrow> error + KVOperationsGroup GraphQLResponse \<times> KVStorageGroup GraphQLResponse
     \<Rightarrow> error + ProductUsage option" where
  "fetchKVUsage e fetched =
     (case getAccountId e of
        Inl err \<Rightarrow> Inl err
      | Inr accountId \<Rightarrow>
          (case fetched of
             Inl err \<Rightarrow> Inl err
           | Inr (opsData, storageData) \<Rightarrow>
               Inr (Some (kvUsage (groupsOf opsData) (groupsOf storageData)))))"

definition d1Usage :: "D1AnalyticsGroup list \<Rightarrow> D1StorageGroup list \<Rightarrow> ProductUsage" where
  "d1Usage analytics storage =
     (let totalRowsRead = sumField analytics d1_rowsRead;
          totalRowsWritten = sumField analytics d1_rowsWritten;
          storageGB = bytesToGB (sumField storage d1s_databaseSizeBytes);
          rowsReadOverage = calculateOverage totalRowsRead D1_LIMITS_rowsReadPerMonth D1_LIMITS_rowsReadOveragePer1M;
          rowsWrittenOverage = calculateOverage totalRowsWritten D1_LIMITS_rowsWrittenPerMonth D1_LIMITS_rowsWrittenOveragePer1M;
          storageOverage = calculateStorageOverage storageGB D1_LIMITS_storageGB D1_LIMITS_storageOveragePerGB
      in buildProductUsage ''D1 Database''
        [buildMetric \<lparr> mi_name = ''Rows Read'', mi_current = totalRowsRead,
            mi_limit = D1_LIMITS_rowsReadPerMonth, mi_unit = ''rows'',
            mi_rate = ''$0.001/1M rows'' \<rparr> rowsReadOverage,
         buildMetric \<lparr> mi_name = ''Rows Written'', mi_current = totalRowsWritten,
            mi_limit = D1_LIMITS_rowsWrittenPerMonth, mi_unit = ''rows'',
            mi_rate = ''$1.00/1M rows'' \<rparr> rowsWrittenOverage,
         buildMetric \<lparr> mi_name = ''Storage'', mi_current = storageGB,
            mi_limit = D1_LIMITS_storageGB, mi_unit = ''GB'',
            mi_rate = ''$0.75/GB-month'' \<rparr> storageOverage])"

definition fetchD1Usage ::
  "env \<Rightarrow> error + D1AnalyticsGroup GraphQLResponse \<times> D1StorageGroup GraphQLResponse
     \<Rightarrow> error + ProductUsage option" where
  "fetchD1Usage e fetched =
     (case getAccountId e of
        Inl err \<Rightarrow> Inl err
      | Inr accountId \<Rightarrow>
          (case fetched of
             Inl err \<Rightarrow> Inl err
           | Inr (analyticsData, storageData) \<Rightarrow>
               Inr (Some (d1Usage (groupsOf analyticsData) (groupsOf storageData)))))"

definition imagesUsage :: "ImagesRequestsGroup list \<Rightarrow> ProductUsage" where
  "imagesUsage imgs =
     (let totalRequests = sumField imgs img_requests;
          deliveredCost = calculatePer100KCost totalRequests IMAGES_LIMITS_deliveredPer100K
      in buildProductUsage ''Images''
        [buildMetric \<lparr> mi_name = ''Requests'', mi_current = totalRequests,
            mi_limit = 0, mi_unit = ''requests'',
            mi_rate = ''$1.00/100K requests'' \<rparr> deliveredCost])"

definition fetchImagesUsage ::
  "env \<Rightarrow> error + ImagesRequestsGroup GraphQLResponse \<Rightarrow> error + ProductUsage option" where
  "fetchImagesUsage e fetched =
     (case getAccountId e of
        Inl err \<Rightarrow> Inl err
      | Inr accountId \<Rightarrow>
          (case fetched of
             Inl err \<Rightarrow> Inl err
           | Inr data \<Rightarrow> Inr (Some (imagesUsage (groupsOf data)))))"

text \<open>
  The Workers AI aggregator reads the clock after the fetch: \<open>tza\<close> is the offset of the
  local time zone and \<open>now\<close> the time value of \<^verbatim>\<open>new Date()\<close>.
\<close>

definition workersAIUsage :: "int \<Rightarrow> int \<Rightarrow> AIInferenceGroup list \<Rightarrow> ProductUsage" where
  "workersAIUsage tza now aiData =
     (let totalNeurons = sumField aiData ai_totalNeurons;
          daysInMonth = getDate tza (newDate tza (getFullYear tza now) (getMonth tza now + 1) 0);
          monthlyFreeNeurons = WORKERS_AI_LIMITS_neuronsPerDay * real_of_int daysInMonth;
          neuronCost = calculatePer1KCost totalNeurons monthlyFreeNeurons WORKERS_AI_LIMITS_neuronOveragePer1K
      in buildProductUsage ''Workers AI''
        [buildMetric \<lparr> mi_name = ''Neurons'', mi_current = totalNeurons,
            mi_limit = monthlyFreeNeurons, mi_unit = ''neurons'',
            mi_rate = ''$0.011/1K neurons'' \<rparr> neuronCost])"

definition fetchWorkersAIUsage ::
  "env \<Rightarrow> int \<Rightarrow> int \<Rightarrow> error + AIInferenceGroup GraphQLResponse \<Rightarrow> error + ProductUsage option" where
  "fetchWorkersAIUsage e tza now fetched =
     (case getAccountId e of
        Inl err \<Rightarrow> Inl err
      | Inr accountId \<Rightarrow>
          (case fetched of
             Inl err \<Rightarrow> Inl err
           | Inr data \<Rightarrow> Inr (Some (workersAIUsage tza now (groupsOf data)))))"

definition vectorizeUsage ::
  "VectorizeQueriesGroup list \<Rightarrow> VectorizeStorageGroup list \<Rightarrow> ProductUsage" where
  "vectorizeUsage queries storage =
     (let queriedDimensions = sumField queries vq_queriedVectorDimensions;
          storedDimensions = sumField storage vs_storedVectorDimensions;
          queriedOverage = calculateOverage queriedDimensions VECTORIZE_LIMITS_queriedDimensionsPerMonth
             VECTORIZE_LIMITS_queriedOveragePer1M;
          storedOverage = calculateOverage storedDimensions VECTORIZE_LIMITS_storedDimensionsPerMonth
             VECTORIZE_LIMITS_storedOveragePer1M
      in buildProductUsage ''Vectorize''
        [buildMetric \<lparr> mi_name = ''Queried Dimensions'', mi_current = queriedDimensions,
            mi_limit = VECTORIZE_LIMITS_queriedDimensionsPerMonth, mi_unit = ''dimensions'',
            mi_rate = ''$0.01/1M dimensions'' \<rparr> queriedOverage,
         buildMetric \<lparr> mi_name = ''Stored Dimensions'', mi_current = storedDimensions,
            mi_limit = VECTORIZE_LIMITS_storedDimensionsPerMonth, mi_unit = ''dimensions'',
            mi_rate = ''$0.05/1M dim-month'' \<rparr> storedOverage])"

definition fetchVectorizeUsage ::
  "env \<Rightarrow> error + VectorizeQueriesGroup GraphQLResponse \<times> VectorizeStorageGroup GraphQLResponse
     \<Rightarrow> error + ProductUsage option" where
  "fetchVectorizeUsage e fetched =
     (case getAccountId e of
        Inl err \<Rightarrow> Inl err
      | Inr accountId \<Rightarrow>
          (case fetched of
             Inl err \<Rightarrow> Inl err
           | Inr (queriesData, storageData) \<Rightarrow>
               Inr (Some (vectorizeUsage (groupsOf queriesData) (groupsOf storageData)))))"

subsection \<open>Account aggregator (api.ts)\<close>

record BillingPeriod =
  bp_start :: string
  bp_end :: string

record CloudflareUsageData =
  r2 :: "ProductUsage option"
  workers :: "ProductUsage option"
  kv :: "ProductUsage option"
  d1 :: "ProductUsage option"
  images :: "ProductUsage option"
  ai :: "ProductUsage option"
  vectorize :: "ProductUsage option"
  errors :: "ServiceError list"
  totalEstimatedCost :: real
  billingPeriod :: BillingPeriod

text \<open>
  The seven aggregations run concurrently. What \<^verbatim>\<open>$fetchAllUsage\<close> sees of them is, for
  each, how its promise settles (\<open>Inl\<close> rejected with an error, \<open>Inr\<close> fulfilled with a
  \<^verbatim>\<open>ProductUsage | null\<close>), and the order in which the seven promises settle: a rejection
  runs \<^verbatim>\<open>captureError\<close>, which appends to the shared array \<^verbatim>\<open>errors\<close>, so the array is
  filled in the order of settling. Both are arguments of the model.
\<close>

datatype aggregator = R2 | Workers | KV | D1 | Images | WorkersAI | Vectorize

type_synonym outcomes = "aggregator \<Rightarrow> error + ProductUsage option"

definition serviceName :: "aggregator \<Rightarrow> string" where
  "serviceName a =
     (case a of
        R2 \<Rightarrow> ''R2 Storage''
      | Workers \<Rightarrow> ''Workers''
      | KV \<Rightarrow> ''Workers KV''
      | D1 \<Rightarrow> ''D1 Database''
      | Images \<Rightarrow> ''Images''
      | WorkersAI \<Rightarrow> ''Workers AI''
      | Vectorize \<Rightarrow> ''Vectorize'')"

text \<open>
  \<^verbatim>\<open>captureError(service)(e)\<close> pushes onto \<^verbatim>\<open>errors\<close> and returns \<^verbatim>\<open>null\<close>; \<open>catchPromise\<close> is
  \<^verbatim>\<open>promise.catch(captureError(service))\<close>: the array afterwards and the value of the new
  promise.
\<close>

definition captureError ::
  "string \<Rightarrow> error \<Rightarrow> ServiceError list \<Rightarrow> ServiceError list \<times> ProductUsage option" where
  "captureError svc e errs =
     (case e of Error msg \<Rightarrow> (errs @ [\<lparr> service = svc, message = msg \<rparr>], None))"

definition catchPromise ::
  "error + ProductUsage option \<Rightarrow> string \<Rightarrow> ServiceError list
     \<Rightarrow> ServiceError list \<times> ProductUsage option" where
  "catchPromise p svc errs =
     (case p of Inr v \<Rightarrow> (errs, v) | Inl e \<Rightarrow> captureError svc e errs)"

definition settle :: "outcomes \<Rightarrow> ServiceError list \<Rightarrow> aggregator \<Rightarrow> ServiceError list" where
  "settle outs errs a = fst (catchPromise (outs a) (serviceName a) errs)"

definition slot :: "outcomes \<Rightarrow> aggregator \<Rightarrow> ProductUsage option" where
  "slot outs a = snd (catchPromise (outs a) (serviceName a) [])"

definition fetchAllUsage ::
  "env \<Rightarrow> int \<Rightarrow> int \<Rightarrow> aggregator list \<Rightarrow> outcomes \<Rightarrow> error + CloudflareUsageData" where
  "fetchAllUsage e tza now order outs =
     (case getAccountId e of
        Inl err \<Rightarrow> Inl err
      | Inr accountId \<Rightarrow>
          let errs = foldl (settle outs) [] order;
              r2v = slot outs R2;
              workersv = slot outs Workers;
              kvv = slot outs KV;
              d1v = slot outs D1;
              imagesv = slot outs Images;
              aiv = slot outs WorkersAI;
              vectorizev = slot outs Vectorize;
              overageCosts =
                foldl (\<lambda>sum item. sum + (case item of None \<Rightarrow> 0 | Some p \<Rightarrow> totalOverageCost p)) 0
                  [r2v, workersv, kvv, d1v, imagesv, aiv, vectorizev];
              monthStart = newDate tza (getFullYear tza now) (getMonth tza now) 1;
              monthEnd = newDate tza (getFullYear tza now) (getMonth tza now + 1) 0
          in Inr \<lparr> r2 = r2v, workers = workersv, kv = kvv, d1 = d1v, images = imagesv,
                   ai = aiv, vectorize = vectorizev,
                   errors = errs,
                   totalEstimatedCost = WORKERS_PAID_LIMITS_baseCost + overageCosts,
                   billingPeriod =
                     \<lparr> bp_start = toISOString monthStart, bp_end = toISOString monthEnd \<rparr> \<rparr>)"

subsection \<open>Notions of the specification used to state the properties\<close>

definition allAggregators :: "aggregator list" where
  "allAggregators = [R2, Workers, KV, D1, Images, WorkersAI, Vectorize]"

definition slotOf :: "CloudflareUsageData \<Rightarrow> aggregator \<Rightarrow> ProductUsage option" where
  "slotOf s a =
     (case a of
        R2 \<Rightarrow> r2 s
      | Workers \<Rightarrow> workers s
      | KV \<Rightarrow> kv s
      | D1 \<Rightarrow> d1 s
      | Images \<Rightarrow> images s
      | WorkersAI \<Rightarrow> ai s
      | Vectorize \<Rightarrow> vectorize s)"


text \<open>One \<^verbatim>\<open>ServiceError\<close> for every aggregator that fails, and nothing else.\<close>

definition serviceErrorsOf :: "outcomes \<Rightarrow> aggregator \<Rightarrow> ServiceError list" where
  "serviceErrorsOf outs a =
     (case outs a of
        Inl (Error msg) \<Rightarrow> [\<lparr> service = serviceName a, message = msg \<rparr>]
      | Inr v \<Rightarrow> [])"

text \<open>
  The bucket of a KV operation as the specification words it: the first of the four
  patterns that the lower-cased label contains, or none.
\<close>

datatype kvBucket = Reads | Writes | Deletes | Lists

definition kvBucketOf :: "string \<Rightarrow> kvBucket option" where
  "kvBucketOf label =
     (let l = toLowerCase label in
      if includes_str l ''read'' \<or> includes_str l ''get'' then Some Reads
      else if includes_str l ''write'' \<or> includes_str l ''put'' then Some Writes
      else if includes_str l ''delete'' then Some Deletes
      else if includes_str l ''list'' then Some Lists
      else None)"

definition bucketTotal :: "kvBucket \<Rightarrow> KVOperationsGroup list \<Rightarrow> real" where
  "bucketTotal b operations =
     sum_list (map kv_requests
       (filter (\<lambda>item. kvBucketOf (kv_actionType item) = Some b) operations))"

text \<open>Every metric of a product is at zero: nothing used, nothing owed.\<close>

definition allZero :: "ProductUsage \<Rightarrow> bool" where
  "allZero p = list_all (\<lambda>m. current m = 0 \<and> percentage m = 0 \<and> overageCost m = 0) (metrics p)"

text \<open>The \<open>current\<close> values of the metrics of a product that are named \<open>Storage\<close>.\<close>

definition storageCurrent :: "ProductUsage \<Rightarrow> real list" where
  "storageCurrent p = map current (filter (\<lambda>m. name m = ''Storage'') (metrics p))"

section \<open>Properties of the calculators and builders\<close>

lemma foldl_add_sum_list:
  "foldl (\<lambda>s x. s + f x) a xs = (a::real) + sum_list (map f xs)"
  by (induction xs arbitrary: a) simp_all

lemma sumField_sum_list: "sumField items getter = sum_list (map getter items)"
  by (simp add: sumField_def foldl_add_sum_list)

text \<open>
  Claim C3. For non-negative \<open>current\<close>, \<open>limit\<close> and \<open>rate\<close>, the four calculators compute
  the four pricing formulas (per million, per GB, per thousand above the limit, and per
  hundred thousand from zero), every result is non-negative, and the three calculators that
  take a limit give zero whenever \<open>current \<le> limit\<close>.
\<close>

theorem calculators_formulas:
  assumes "0 \<le> cur" and "0 \<le> lmt" and "0 \<le> r"
  shows "calculateOverage cur lmt r = max 0 (cur - lmt) / 1000000 * r
       \<and> calculateStorageOverage cur lmt r = max 0 (cur - lmt) * r
       \<and> calculatePer1KCost cur lmt r = max 0 (cur - lmt) / 1000 * r
       \<and> calculatePer100KCost cur r = cur / 100000 * r
       \<and> 0 \<le> calculateOverage cur lmt r
       \<and> 0 \<le> calculateStorageOverage cur lmt r
       \<and> 0 \<le> calculatePer1KCost cur lmt r
       \<and> 0 \<le> calculatePer100KCost cur r
       \<and> (cur \<le> lmt \<longrightarrow>
            calculateOverage cur lmt r = 0
          \<and> calculateStorageOverage cur lmt r = 0
          \<and> calculatePer1KCost cur lmt r = 0)"
  using assms
  by (simp add: calculateOverage_def calculateStorageOverage_def calculatePer1KCost_def
      calculatePer100KCost_def Let_def)

theorem calculators_formulas_witness:
  "calculateOverage 12000000 10000000 (1 / 2) = 1
   \<and> calculateStorageOverage 15 10 (15 / 1000) = 75 / 1000
   \<and> calculatePer1KCost 310500 310000 (11 / 1000) = 55 / 10000
   \<and> calculatePer100KCost 250000 1 = 5 / 2
   \<and> calculateOverage 600 1000000 (45 / 10) = 0"
proof -
  have a: "(0::real) \<le> 12000000" "(0::real) \<le> 10000000" "(0::real) \<le> 1 / 2" by simp_all
  have b: "(0::real) \<le> 15" "(0::real) \<le> 10" "(0::real) \<le> 15 / 1000" by simp_all
  have c: "(0::real) \<le> 310500" "(0::real) \<le> 310000" "(0::real) \<le> 11 / 1000" by simp_all
  have d: "(0::real) \<le> 250000" "(0::real) \<le> 0" "(0::real) \<le> 1" by simp_all
  have e: "(0::real) \<le> 600" "(0::real) \<le> 1000000" "(0::real) \<le> 45 / 10" by simp_all
  show ?thesis
    using calculators_formulas [OF a] calculators_formulas [OF b] calculators_formulas [OF c]
      calculators_formulas [OF d] calculators_formulas [OF e]
    by simp
qed

text \<open>
  Claim C9, as stated, fails. The specification asks the calculators to reject a negative
  \<open>current\<close> or \<open>limit\<close>; the calculators of the source have no such check and return a
  number: with \<open>current = -5\<close> the overage is clamped and the cost is \<open>0\<close>, and
  \<^verbatim>\<open>calculatePer100KCost(-100000, 1)\<close> is the negative cost \<open>-1\<close>.
\<close>

theorem calculators_reject_counterexample:
  "Inr (calculateOverage (- 5) 10 1) \<noteq> spec_calculateOverage (- 5) 10 1
   \<and> calculateOverage (- 5) 10 1 = 0
   \<and> Inr (calculatePer100KCost (- 100000) 1) \<noteq> spec_calculatePer100KCost (- 100000) 1
   \<and> calculatePer100KCost (- 100000) 1 = - 1"
  by (simp add: calculateOverage_def calculatePer100KCost_def spec_calculateOverage_def
      spec_calculatePer100KCost_def)

text \<open>
  Claim C9, amended. The four calculators are total: they never raise, whatever the sign of
  the inputs, and always return the value of their formula. On a non-negative \<open>current\<close> and
  \<open>limit\<close> (zero included) they return what the calculators of the specification return.
\<close>

theorem calculators_total:
  "(0 \<le> cur \<and> 0 \<le> lmt \<longrightarrow>
       spec_calculateOverage cur lmt r = Inr (calculateOverage cur lmt r)
     \<and> spec_calculateStorageOverage cur lmt r = Inr (calculateStorageOverage cur lmt r)
     \<and> spec_calculatePer1KCost cur lmt r = Inr (calculatePer1KCost cur lmt r))
   \<and> (0 \<le> cur \<longrightarrow> spec_calculatePer100KCost cur r = Inr (calculatePer100KCost cur r))
   \<and> calculateOverage cur lmt r = max 0 (cur - lmt) / 1000000 * r
   \<and> calculateStorageOverage cur lmt r = max 0 (cur - lmt) * r
   \<and> calculatePer1KCost cur lmt r = max 0 (cur - lmt) / 1000 * r
   \<and> calculatePer100KCost cur r = cur / 100000 * r"
  by (simp add: calculateOverage_def calculateStorageOverage_def calculatePer1KCost_def
      calculatePer100KCost_def spec_calculateOverage_def spec_calculateStorageOverage_def
      spec_calculatePer1KCost_def spec_calculatePer100KCost_def Let_def)

theorem calculators_total_witness:
  "spec_calculateOverage 0 0 (1 / 2) = Inr 0
   \<and> spec_calculatePer100KCost 0 (1 / 2) = Inr 0
   \<and> calculateStorageOverage (- 3) 10 (1 / 2) = 0
   \<and> calculatePer100KCost (- 100000) 1 = - 1"
  using calculators_total [of 0 0 "1 / 2"] calculators_total [of "- 3" 10 "1 / 2"]
    calculators_total [of "- 100000" 0 1]
  by simp

text \<open>
  Claim C4. For a metric input with \<open>current \<ge> 0\<close>, \<^verbatim>\<open>buildMetric\<close> sets the percentage to
  \<open>current / limit * 100\<close> when the limit is positive and to \<open>0\<close> when the limit is zero or
  negative; the name, the current value, the limit, the unit, the overage cost and the rate
  are passed through unchanged.
\<close>

theorem buildMetric_percentage:
  assumes "0 \<le> mi_current input"
  shows "(0 < mi_limit input \<longrightarrow>
            percentage (buildMetric input oc) = mi_current input / mi_limit input * 100)
       \<and> (mi_limit input \<le> 0 \<longrightarrow> percentage (buildMetric input oc) = 0)
       \<and> name (buildMetric input oc) = mi_name input
       \<and> current (buildMetric input oc) = mi_current input
       \<and> limit (buildMetric input oc) = mi_limit input
       \<and> unit (buildMetric input oc) = mi_unit input
       \<and> overageCost (buildMetric input oc) = oc
       \<and> rate (buildMetric input oc) = Some (mi_rate input)"
  by (simp add: buildMetric_def)

theorem buildMetric_percentage_witness:
  "percentage (buildMetric \<lparr> mi_name = ''Reads'', mi_current = 12000000, mi_limit = 10000000,
      mi_unit = ''requests'', mi_rate = ''$0.50/1M reads'' \<rparr> 1) = 120
   \<and> percentage (buildMetric \<lparr> mi_name = ''Requests'', mi_current = 250000, mi_limit = 0,
      mi_unit = ''requests'', mi_rate = ''$1.00/100K requests'' \<rparr> (5 / 2)) = 0
   \<and> overageCost (buildMetric \<lparr> mi_name = ''Requests'', mi_current = 250000, mi_limit = 0,
      mi_unit = ''requests'', mi_rate = ''$1.00/100K requests'' \<rparr> (5 / 2)) = 5 / 2"
  using buildMetric_percentage [of "\<lparr> mi_name = ''Reads'', mi_current = 12000000,
      mi_limit = 10000000, mi_unit = ''requests'', mi_rate = ''$0.50/1M reads'' \<rparr>" 1]
    buildMetric_percentage [of "\<lparr> mi_name = ''Requests'', mi_current = 250000, mi_limit = 0,
      mi_unit = ''requests'', mi_rate = ''$1.00/100K requests'' \<rparr>" "5 / 2"]
  by simp

text \<open>
  Claim C5. The total overage cost of the product built by \<^verbatim>\<open>buildProductUsage\<close> is the sum
  of the overage costs of its metrics, and the list of metrics and the product name are the
  ones given.
\<close>

theorem buildProductUsage_total:
  "totalOverageCost (buildProductUsage productName ms) = sum_list (map overageCost ms)
   \<and> metrics (buildProductUsage productName ms) = ms
   \<and> product (buildProductUsage productName ms) = productName"
  by (simp add: buildProductUsage_def foldl_add_sum_list)

subsection \<open>Classification of the KV operations\<close>

lemma includes_str_sublist: "includes_str s t \<longleftrightarrow> sublist t s"
  by (induction s) (auto simp: sublist_Cons_right)

lemma foldl_kvStep:
  "foldl kvStep t operations =
     \<lparr> reads = reads t + bucketTotal Reads operations,
       writes = writes t + bucketTotal Writes operations,
       deletes = deletes t + bucketTotal Deletes operations,
       lists = lists t + bucketTotal Lists operations \<rparr>"
proof (induction operations arbitrary: t)
  case Nil
  show ?case by (simp add: bucketTotal_def)
next
  case (Cons item operations)
  show ?case
    unfolding foldl_Cons Cons.IH
    by (simp add: kvStep_def kvBucketOf_def bucketTotal_def Let_def)
qed

text \<open>
  Claim C6. The four totals of the KV aggregator are, bucket by bucket, the sum of the request
  counts of the operations of that bucket, where the bucket of an operation is decided on its
  lower-cased label in the order: contains \<open>read\<close> or \<open>get\<close>, reads; else contains \<open>write\<close>
  or \<open>put\<close>, writes; else contains \<open>delete\<close>, deletes; else contains \<open>list\<close>, lists; else
  no bucket, and the operation is counted nowhere.
\<close>

theorem kv_classification:
  "kvTotals operations =
     \<lparr> reads = bucketTotal Reads operations,
       writes = bucketTotal Writes operations,
       deletes = bucketTotal Deletes operations,
       lists = bucketTotal Lists operations \<rparr>
   \<and> kvBucketOf label =
       (if sublist ''read'' (toLowerCase label) \<or> sublist ''get'' (toLowerCase label)
          then Some Reads
        else if sublist ''write'' (toLowerCase label) \<or> sublist ''put'' (toLowerCase label)
          then Some Writes
        else if sublist ''delete'' (toLowerCase label) then Some Deletes
        else if sublist ''list'' (toLowerCase label) then Some Lists
        else None)"
  by (simp add: kvTotals_def foldl_kvStep kvBucketOf_def includes_str_sublist Let_def)

theorem kv_classification_witness:
  "kvTotals
     [\<lparr> kv_actionType = ''ReadKey'', kv_requests = 12000000 \<rparr>,
      \<lparr> kv_actionType = ''PUT'', kv_requests = 5 \<rparr>,
      \<lparr> kv_actionType = ''DeleteList'', kv_requests = 3 \<rparr>,
      \<lparr> kv_actionType = ''purge'', kv_requests = 7 \<rparr>,
      \<lparr> kv_actionType = ''GetAndWrite'', kv_requests = 2 \<rparr>]
   = \<lparr> reads = 12000002, writes = 5, deletes = 3, lists = 0 \<rparr>"
  using kv_classification [of
     "[\<lparr> kv_actionType = ''ReadKey'', kv_requests = 12000000 \<rparr>,
      \<lparr> kv_actionType = ''PUT'', kv_requests = 5 \<rparr>,
      \<lparr> kv_actionType = ''DeleteList'', kv_requests = 3 \<rparr>,
      \<lparr> kv_actionType = ''purge'', kv_requests = 7 \<rparr>,
      \<lparr> kv_actionType = ''GetAndWrite'', kv_requests = 2 \<rparr>]" "''''"]
  by (simp add: bucketTotal_def kvBucketOf_def toLowerCase_def lowerChar_def)

subsection \<open>The calendar\<close>

lemma DaysInYear_bounds: "365 \<le> DaysInYear y" "DaysInYear y \<le> 366"
  by (simp_all add: DaysInYear_def)

lemma DayFromYear_1970: "DayFromYear 1970 = 0"
  by (simp add: DayFromYear_def)

lemma DayFromYear_upper: "0 \<le> k \<Longrightarrow> DayFromYear (1970 + k) \<le> 366 * k"
proof (induction k rule: int_ge_induct)
  case base
  show ?case by (simp add: DayFromYear_1970)
next
  case (step i)
  have "DayFromYear (1970 + (i + 1)) = DayFromYear (1970 + i) + DaysInYear (1970 + i)"
    using DayFromYear_Suc [of "1970 + i"] by (simp add: add.assoc)
  also have "\<dots> \<le> 366 * i + 366"
    using step.IH DaysInYear_bounds(2) [of "1970 + i"] by linarith
  finally show ?case by simp
qed

lemma DayFromYear_lower: "k \<le> 0 \<Longrightarrow> DayFromYear (1970 + k) \<le> 365 * k"
proof (induction k rule: int_le_induct)
  case base
  show ?case by (simp add: DayFromYear_1970)
next
  case (step i)
  have "DayFromYear (1970 + i) = DayFromYear (1970 + (i - 1)) + DaysInYear (1970 + (i - 1))"
    using DayFromYear_Suc [of "1970 + (i - 1)"] by simp
  then have "DayFromYear (1970 + (i - 1)) \<le> 365 * i - 365"
    using step.IH DaysInYear_bounds(1) [of "1970 + (i - 1)"] by linarith
  then show ?case by simp
qed

lemma yearSearch_le: "DayFromYear y \<le> d \<Longrightarrow> DayFromYear (yearSearch d y) \<le> d"
proof (induction d y rule: yearSearch.induct)
  case (1 d y)
  show ?case
  proof (cases "DayFromYear (y + 1) \<le> d")
    case True
    then show ?thesis using "1.IH" by (simp add: yearSearch.simps [of d y])
  next
    case False
    then show ?thesis using "1.prems" by (simp add: yearSearch.simps [of d y])
  qed
qed

lemma yearSearch_gt: "d < DayFromYear (yearSearch d y + 1)"
proof (induction d y rule: yearSearch.induct)
  case (1 d y)
  show ?case
  proof (cases "DayFromYear (y + 1) \<le> d")
    case True
    then show ?thesis using "1.IH" by (simp add: yearSearch.simps [of d y])
  next
    case False
    then show ?thesis by (simp add: yearSearch.simps [of d y])
  qed
qed

lemma YearFromDay_bounds:
  "DayFromYear (YearFromDay d) \<le> d" "d < DayFromYear (YearFromDay d + 1)"
proof -
  have "DayFromYear (1970 + (if 0 \<le> d then d div 366 else d div 365)) \<le> d"
  proof (cases "0 \<le> d")
    case True
    then have "0 \<le> d div 366" by simp
    from DayFromYear_upper [OF this] have "DayFromYear (1970 + d div 366) \<le> 366 * (d div 366)" .
    also have "\<dots> \<le> d" by simp
    finally show ?thesis using True by simp
  next
    case False
    then have "d div 365 \<le> 0" by simp
    from DayFromYear_lower [OF this] have "DayFromYear (1970 + d div 365) \<le> 365 * (d div 365)" .
    also have "\<dots> \<le> d" by simp
    finally show ?thesis using False by simp
  qed
  then show "DayFromYear (YearFromDay d) \<le> d"
    unfolding YearFromDay_def by (rule yearSearch_le)
  show "d < DayFromYear (YearFromDay d + 1)"
    unfolding YearFromDay_def by (rule yearSearch_gt)
qed

lemma DayWithinYear_bounds:
  "0 \<le> DayWithinYear t" "DayWithinYear t < DaysInYear (YearFromTime t)"
  using YearFromDay_bounds [of "Day t"] DayFromYear_Suc [of "YearFromDay (Day t)"]
  by (simp_all add: DayWithinYear_def YearFromTime_def)

text \<open>
  With \<open>YearFromDay_bounds\<close>, \<open>YearFromDay d\<close> is the largest year that starts on or before
  day \<open>d\<close>, which is how ECMAScript defines \<^verbatim>\<open>YearFromTime\<close>.
\<close>

lemma DayFromYear_mono: "y \<le> y' \<Longrightarrow> DayFromYear y \<le> DayFromYear y'"
proof (induction y' rule: int_ge_induct)
  case base
  show ?case by simp
next
  case (step i)
  then show ?case using DayFromYear_less [of i] by simp
qed

lemma YearFromDay_greatest: "DayFromYear y \<le> d \<Longrightarrow> y \<le> YearFromDay d"
proof (rule ccontr)
  assume a: "DayFromYear y \<le> d" and "\<not> y \<le> YearFromDay d"
  then have "YearFromDay d + 1 \<le> y" by simp
  from DayFromYear_mono [OF this] have "DayFromYear (YearFromDay d + 1) \<le> DayFromYear y" .
  with a YearFromDay_bounds(2) [of d] show False by simp
qed

text \<open>Some dates, computed with the model.\<close>

lemma date_model_examples:
  "toISOString 0 = ''1970-01-01T00:00:00.000Z''"
  "toISOString (- 1) = ''1969-12-31T23:59:59.999Z''"
  "toISOString 951782400000 = ''2000-02-29T00:00:00.000Z''"
  "toISOString 1709251199999 = ''2024-02-29T23:59:59.999Z''"
  "toISOString 1705320000000 = ''2024-01-15T12:00:00.000Z''"
  "getDate 0 (newDate 0 2023 2 0) = 28"
  "getDate 0 (newDate 0 2024 2 0) = 29"
  "getDate 0 (newDate 0 2023 12 0) = 31"
  "toISOString (newDate 7200000 2024 0 1) = ''2023-12-31T22:00:00.000Z''"
  by code_simp+

lemma InLeapYear_cases: "InLeapYear t = 0 \<or> InLeapYear t = 1"
  by (simp add: InLeapYear_def)

lemma DateFromTime_ge_1: "1 \<le> DateFromTime t"
  using DayWithinYear_bounds(1) [of t] InLeapYear_cases [of t]
  unfolding DateFromTime_def MonthFromTime_def Let_def
  by (auto split: if_splits)

subsection \<open>The storage metric of R2 and KV\<close>

lemma groupsOf_simps:
  "groupsOf [] = []" "groupsOf (gs # accounts) = gs"
  by (simp_all add: groupsOf_def extractAccountData_def)

text \<open>
  Claim C10. When the account id is configured and the fetch succeeds, the \<open>Storage\<close> metric
  of R2 has as current value the payload size of the first storage group, converted to GB,
  and the one of KV the byte count of the first storage group, converted to GB; the other
  groups of the list, and the metadata size, the object count and the key count, do not
  reach the value; with no storage group the value is \<open>0\<close> GB.
\<close>

theorem storage_from_first_group:
  assumes "getAccountId e = Inr accountId"
  shows "(groupsOf storageData = g # rest \<longrightarrow>
            (\<exists>p. fetchR2Usage e (Inr (opsData, storageData)) = Inr (Some p)
               \<and> storageCurrent p = [bytesToGB (r2_payloadSize g)]))
       \<and> (groupsOf storageData = [] \<longrightarrow>
            (\<exists>p. fetchR2Usage e (Inr (opsData, storageData)) = Inr (Some p)
               \<and> storageCurrent p = [0]))
       \<and> (groupsOf kvStorageData = k # krest \<longrightarrow>
            (\<exists>p. fetchKVUsage e (Inr (kvOpsData, kvStorageData)) = Inr (Some p)
               \<and> storageCurrent p = [bytesToGB (kv_byteCount k)]))
       \<and> (groupsOf kvStorageData = [] \<longrightarrow>
            (\<exists>p. fetchKVUsage e (Inr (kvOpsData, kvStorageData)) = Inr (Some p)
               \<and> storageCurrent p = [0]))
       \<and> storageCurrent (r2Usage operations (g # rest))
            = storageCurrent (r2Usage operations
                [\<lparr> r2_payloadSize = r2_payloadSize g, r2_metadataSize = ms, r2_objectCount = oc \<rparr>])
       \<and> storageCurrent (kvUsage kvOperations (k # krest))
            = storageCurrent (kvUsage kvOperations
                [\<lparr> kv_byteCount = kv_byteCount k, kv_keyCount = kc \<rparr>])"
proof -
  have r2: "storageCurrent (r2Usage ops st) =
      [bytesToGB (case st of [] \<Rightarrow> 0 | g # _ \<Rightarrow> r2_payloadSize g)]" for ops st
    by (simp add: r2Usage_def storageCurrent_def buildProductUsage_def buildMetric_def Let_def
        split: prod.split)
  have kv: "storageCurrent (kvUsage ops st) =
      [bytesToGB (case st of [] \<Rightarrow> 0 | g # _ \<Rightarrow> kv_byteCount g)]" for ops st
    by (simp add: kvUsage_def storageCurrent_def buildProductUsage_def buildMetric_def Let_def)
  show ?thesis
    using assms by (simp add: fetchR2Usage_def fetchKVUsage_def r2 kv bytesToGB_def)
qed

theorem storage_from_first_group_witness:
  "(\<exists>p. fetchR2Usage \<lparr> CLOUDFLARE_ACCOUNT_ID = Some ''acct'', CLOUDFLARE_API_TOKEN = Some ''token'' \<rparr>
          (Inr ([[\<lparr> r2_actionType = ''PutObject'', r2_requests = 600 \<rparr>,
                  \<lparr> r2_actionType = ''GetObject'', r2_requests = 400 \<rparr>]],
                [[\<lparr> r2_payloadSize = 16106127360, r2_metadataSize = 7, r2_objectCount = 3 \<rparr>,
                  \<lparr> r2_payloadSize = 999, r2_metadataSize = 1, r2_objectCount = 1 \<rparr>]]))
        = Inr (Some p) \<and> storageCurrent p = [15])
   \<and> (\<exists>p. fetchKVUsage \<lparr> CLOUDFLARE_ACCOUNT_ID = Some ''acct'', CLOUDFLARE_API_TOKEN = Some ''token'' \<rparr>
          (Inr ([], [])) = Inr (Some p) \<and> storageCurrent p = [0])"
proof -
  have h: "getAccountId \<lparr> CLOUDFLARE_ACCOUNT_ID = Some ''acct'', CLOUDFLARE_API_TOKEN = Some ''token'' \<rparr>
      = Inr ''acct''"
    by (simp add: getAccountId_def)
  show ?thesis
    using storage_from_first_group [OF h,
        of "[[\<lparr> r2_payloadSize = 16106127360, r2_metadataSize = 7, r2_objectCount = 3 \<rparr>,
              \<lparr> r2_payloadSize = 999, r2_metadataSize = 1, r2_objectCount = 1 \<rparr>]]"
           "\<lparr> r2_payloadSize = 16106127360, r2_metadataSize = 7, r2_objectCount = 3 \<rparr>"
           "[\<lparr> r2_payloadSize = 999, r2_metadataSize = 1, r2_objectCount = 1 \<rparr>]"
           "[[\<lparr> r2_actionType = ''PutObject'', r2_requests = 600 \<rparr>,
              \<lparr> r2_actionType = ''GetObject'', r2_requests = 400 \<rparr>]]"
           "[]" _ _ "[]"]
    by (simp add: groupsOf_simps bytesToGB_def)
qed

subsection \<open>Empty result sets\<close>

lemma r2Usage_empty: "allZero (r2Usage [] [])"
  by (simp add: allZero_def r2Usage_def buildProductUsage_def buildMetric_def bytesToGB_def
      calculateOverage_def calculateStorageOverage_def limits_defs)

lemma workersUsage_empty: "allZero (workersUsage [])"
  by (simp add: allZero_def workersUsage_def buildProductUsage_def buildMetric_def
      calculateOverage_def limits_defs)

lemma kvUsage_empty: "allZero (kvUsage [] [])"
  by (simp add: allZero_def kvUsage_def kvTotals_def buildProductUsage_def buildMetric_def
      bytesToGB_def calculateOverage_def calculateStorageOverage_def limits_defs)

lemma d1Usage_empty: "allZero (d1Usage [] [])"
  by (simp add: allZero_def d1Usage_def sumField_def buildProductUsage_def buildMetric_def
      bytesToGB_def calculateOverage_def calculateStorageOverage_def limits_defs)

lemma imagesUsage_empty: "allZero (imagesUsage [])"
  by (simp add: allZero_def imagesUsage_def sumField_def buildProductUsage_def buildMetric_def
      calculatePer100KCost_def)

lemma workersAIUsage_empty: "allZero (workersAIUsage tza now [])"
proof -
  define daysInMonth where
    "daysInMonth = getDate tza (newDate tza (getFullYear tza now) (getMonth tza now + 1) 0)"
  have "1 \<le> daysInMonth"
    unfolding daysInMonth_def getDate_def by (rule DateFromTime_ge_1)
  then have "0 < WORKERS_AI_LIMITS_neuronsPerDay * real_of_int daysInMonth"
    by (simp add: WORKERS_AI_LIMITS_neuronsPerDay_def)
  then show ?thesis
    unfolding daysInMonth_def
    by (simp add: allZero_def workersAIUsage_def sumField_def buildProductUsage_def
        buildMetric_def calculatePer1KCost_def Let_def)
qed

lemma vectorizeUsage_empty: "allZero (vectorizeUsage [] [])"
  by (simp add: allZero_def vectorizeUsage_def sumField_def buildProductUsage_def
      buildMetric_def calculateOverage_def limits_defs)

lemma r2Usage_names:
  "map name (metrics (r2Usage operations storage))
     = [''Class A Operations'', ''Class B Operations'', ''Storage'']"
  by (simp add: r2Usage_def buildProductUsage_def buildMetric_def Let_def split: prod.split)

lemma workersUsage_names:
  "map name (metrics (workersUsage invocations)) = [''Requests'', ''CPU Time (est.)'']"
  by (simp add: workersUsage_def buildProductUsage_def buildMetric_def Let_def split: prod.split)

lemma kvUsage_names:
  "map name (metrics (kvUsage operations storage))
     = [''Reads'', ''Writes'', ''Deletes'', ''Lists'', ''Storage'']"
  by (simp add: kvUsage_def buildProductUsage_def buildMetric_def Let_def)

lemma d1Usage_names:
  "map name (metrics (d1Usage analytics storage)) = [''Rows Read'', ''Rows Written'', ''Storage'']"
  by (simp add: d1Usage_def buildProductUsage_def buildMetric_def Let_def)

lemma imagesUsage_names: "map name (metrics (imagesUsage imgs)) = [''Requests'']"
  by (simp add: imagesUsage_def buildProductUsage_def buildMetric_def Let_def)

lemma workersAIUsage_names: "map name (metrics (workersAIUsage tza now aiData)) = [''Neurons'']"
  by (simp add: workersAIUsage_def buildProductUsage_def buildMetric_def Let_def)

lemma vectorizeUsage_names:
  "map name (metrics (vectorizeUsage queries storage))
     = [''Queried Dimensions'', ''Stored Dimensions'']"
  by (simp add: vectorizeUsage_def buildProductUsage_def buildMetric_def Let_def)

text \<open>
  Claim C8. When the account id is configured and the fetch succeeds with no group in any
  of its result sets, each of the seven aggregators returns a product (not \<^verbatim>\<open>null\<close>, no
  error) that holds all the metrics of that product, in their order, and every one of them
  has current value, percentage and overage cost \<open>0\<close>.
\<close>

theorem empty_results_all_zero:
  assumes "getAccountId e = Inr accountId"
  shows "(groupsOf r2Ops = [] \<and> groupsOf r2Storage = [] \<longrightarrow>
            (\<exists>p. fetchR2Usage e (Inr (r2Ops, r2Storage)) = Inr (Some p)
               \<and> map name (metrics p) = [''Class A Operations'', ''Class B Operations'', ''Storage'']
               \<and> allZero p))
       \<and> (groupsOf invocations = [] \<longrightarrow>
            (\<exists>p. fetchWorkersUsage e (Inr invocations) = Inr (Some p)
               \<and> map name (metrics p) = [''Requests'', ''CPU Time (est.)'']
               \<and> allZero p))
       \<and> (groupsOf kvOps = [] \<and> groupsOf kvStorage = [] \<longrightarrow>
            (\<exists>p. fetchKVUsage e (Inr (kvOps, kvStorage)) = Inr (Some p)
               \<and> map name (metrics p) = [''Reads'', ''Writes'', ''Deletes'', ''Lists'', ''Storage'']
               \<and> allZero p))
       \<and> (groupsOf d1Analytics = [] \<and> groupsOf d1Storage = [] \<longrightarrow>
            (\<exists>p. fetchD1Usage e (Inr (d1Analytics, d1Storage)) = Inr (Some p)
               \<and> map name (metrics p) = [''Rows Read'', ''Rows Written'', ''Storage'']
               \<and> allZero p))
       \<and> (groupsOf imgs = [] \<longrightarrow>
            (\<exists>p. fetchImagesUsage e (Inr imgs) = Inr (Some p)
               \<and> map name (metrics p) = [''Requests'']
               \<and> allZero p))
       \<and> (groupsOf aiData = [] \<longrightarrow>
            (\<exists>p. fetchWorkersAIUsage e tza now (Inr aiData) = Inr (Some p)
               \<and> map name (metrics p) = [''Neurons'']
               \<and> allZero p))
       \<and> (groupsOf queries = [] \<and> groupsOf vecStorage = [] \<longrightarrow>
            (\<exists>p. fetchVectorizeUsage e (Inr (queries, vecStorage)) = Inr (Some p)
               \<and> map name (metrics p) = [''Queried Dimensions'', ''Stored Dimensions'']
               \<and> allZero p))"
  using assms
  by (simp add: fetchR2Usage_def fetchWorkersUsage_def fetchKVUsage_def fetchD1Usage_def
      fetchImagesUsage_def fetchWorkersAIUsage_def fetchVectorizeUsage_def
      r2Usage_empty workersUsage_empty kvUsage_empty d1Usage_empty imagesUsage_empty
      workersAIUsage_empty vectorizeUsage_empty
      r2Usage_names workersUsage_names kvUsage_names d1Usage_names imagesUsage_names
      workersAIUsage_names vectorizeUsage_names)

theorem empty_results_all_zero_witness:
  "(\<exists>p. fetchR2Usage \<lparr> CLOUDFLARE_ACCOUNT_ID = Some ''acct'', CLOUDFLARE_API_TOKEN = Some ''token'' \<rparr>
          (Inr ([[]], [])) = Inr (Some p)
        \<and> map name (metrics p) = [''Class A Operations'', ''Class B Operations'', ''Storage'']
        \<and> map current (metrics p) = [0, 0, 0]
        \<and> map percentage (metrics p) = [0, 0, 0]
        \<and> map overageCost (metrics p) = [0, 0, 0])
   \<and> (\<exists>p. fetchImagesUsage \<lparr> CLOUDFLARE_ACCOUNT_ID = Some ''acct'', CLOUDFLARE_API_TOKEN = Some ''token'' \<rparr>
          (Inr [[]]) = Inr (Some p)
        \<and> map name (metrics p) = [''Requests'']
        \<and> map current (metrics p) = [0]
        \<and> map percentage (metrics p) = [0]
        \<and> map overageCost (metrics p) = [0])
   \<and> (\<exists>p. fetchWorkersAIUsage \<lparr> CLOUDFLARE_ACCOUNT_ID = Some ''acct'', CLOUDFLARE_API_TOKEN = Some ''token'' \<rparr>
          0 1705320000000 (Inr []) = Inr (Some p)
        \<and> map name (metrics p) = [''Neurons'']
        \<and> map current (metrics p) = [0]
        \<and> map percentage (metrics p) = [0]
        \<and> map overageCost (metrics p) = [0])"
proof -
  have h: "getAccountId \<lparr> CLOUDFLARE_ACCOUNT_ID = Some ''acct'', CLOUDFLARE_API_TOKEN = Some ''token'' \<rparr>
      = Inr ''acct''"
    by (simp add: getAccountId_def)
  have z: "map current (metrics p) = map (\<lambda>n. 0) (map name (metrics p))
      \<and> map percentage (metrics p) = map (\<lambda>n. 0) (map name (metrics p))
      \<and> map overageCost (metrics p) = map (\<lambda>n. 0) (map name (metrics p))"
    if "allZero p" for p
    using that unfolding allZero_def by (induction "metrics p" arbitrary: p) (simp_all add: list_all_iff)
  note t = empty_results_all_zero [OF h, where ?r2Ops = "[[]]" and ?r2Storage = "[]"
        and ?imgs = "[[]]" and ?aiData = "[]" and ?tza = 0 and ?now = 1705320000000
        and ?invocations = "[]" and ?kvOps = "[]" and ?kvStorage = "[]"
        and ?d1Analytics = "[]" and ?d1Storage = "[]" and ?queries = "[]" and ?vecStorage = "[]"]
  obtain p1 where p1: "fetchR2Usage \<lparr> CLOUDFLARE_ACCOUNT_ID = Some ''acct'', CLOUDFLARE_API_TOKEN = Some ''token'' \<rparr>
          (Inr ([[]], [])) = Inr (Some p1)"
      "map name (metrics p1) = [''Class A Operations'', ''Class B Operations'', ''Storage'']"
      "allZero p1"
    using t by (auto simp add: groupsOf_simps)
  obtain p2 where p2: "fetchImagesUsage \<lparr> CLOUDFLARE_ACCOUNT_ID = Some ''acct'', CLOUDFLARE_API_TOKEN = Some ''token'' \<rparr>
          (Inr [[]]) = Inr (Some p2)"
      "map name (metrics p2) = [''Requests'']" "allZero p2"
    using t by (auto simp add: groupsOf_simps)
  obtain p3 where p3: "fetchWorkersAIUsage \<lparr> CLOUDFLARE_ACCOUNT_ID = Some ''acct'', CLOUDFLARE_API_TOKEN = Some ''token'' \<rparr>
          0 1705320000000 (Inr []) = Inr (Some p3)"
      "map name (metrics p3) = [''Neurons'']" "allZero p3"
    using t by (auto simp add: groupsOf_simps)
  show ?thesis
    using p1 p2 p3 z [OF p1(3)] z [OF p2(3)] z [OF p3(3)] by simp
qed

subsection \<open>The account aggregator\<close>


lemma slot_eq: "slot outs a = (case outs a of Inl err \<Rightarrow> None | Inr v \<Rightarrow> v)"
  by (simp add: slot_def catchPromise_def captureError_def split: sum.split error.split)

lemma settle_eq: "settle outs errs a = errs @ serviceErrorsOf outs a"
  by (simp add: settle_def catchPromise_def captureError_def serviceErrorsOf_def
      split: sum.split error.split)

lemma foldl_settle: "foldl (settle outs) errs order = errs @ concat (map (serviceErrorsOf outs) order)"
  by (induction order arbitrary: errs) (simp_all add: settle_eq)

lemma mset_concat_map_cong:
  assumes "mset xs = mset ys"
  shows "mset (concat (map f xs)) = mset (concat (map f ys))"
proof -
  have "mset (concat (map f zs)) = sum_mset (image_mset (\<lambda>z. mset (f z)) (mset zs))" for zs
    by (induction zs) simp_all
  then show ?thesis by (simp add: assms)
qed



text \<open>
  Claim C2. When the account id is configured, for every set of aggregators that fail and
  every order in which the seven promises settle, \<^verbatim>\<open>$fetchAllUsage\<close> returns a summary and
  does not raise: the slot of a failing aggregator is \<^verbatim>\<open>null\<close>, the slot of a succeeding
  one holds the value it returned, and the errors are, in the order of settling, one
  \<^verbatim>\<open>ServiceError\<close> with the service name and the message for every failing aggregator and
  nothing else.
\<close>

theorem failures_captured:
  assumes "getAccountId e = Inr accountId" and "mset order = mset allAggregators"
  shows "\<exists>s. fetchAllUsage e tza now order outs = Inr s
     \<and> (\<forall>a. slotOf s a = (case outs a of Inl err \<Rightarrow> None | Inr v \<Rightarrow> v))
     \<and> errors s = concat (map (serviceErrorsOf outs) order)
     \<and> mset (errors s) = mset (concat (map (serviceErrorsOf outs) allAggregators))"
proof -
  define s where "s = (case fetchAllUsage e tza now order outs of Inr s \<Rightarrow> s)"
  have r: "fetchAllUsage e tza now order outs = Inr s"
    using assms(1) by (simp add: s_def fetchAllUsage_def Let_def)
  have sl: "slotOf s a = (case outs a of Inl err \<Rightarrow> None | Inr v \<Rightarrow> v)" for a
    using assms(1)
    by (cases a) (simp_all add: s_def fetchAllUsage_def Let_def slotOf_def slot_eq)
  have er: "errors s = concat (map (serviceErrorsOf outs) order)"
    using assms(1) by (simp add: s_def fetchAllUsage_def Let_def foldl_settle)
  have "mset (errors s) = mset (concat (map (serviceErrorsOf outs) allAggregators))"
    unfolding er by (rule mset_concat_map_cong [OF assms(2)])
  with r sl er show ?thesis by blast
qed

theorem failures_captured_witness:
  "\<exists>s. fetchAllUsage \<lparr> CLOUDFLARE_ACCOUNT_ID = Some ''acct'', CLOUDFLARE_API_TOKEN = Some ''token'' \<rparr>
          0 1705320000000 [KV, Vectorize, R2, Workers, Images, D1, WorkersAI]
          (\<lambda>a. if a = R2 then Inl (Error ''timeout'')
               else if a = Vectorize then Inl (Error ''GraphQL error: unknown field'')
               else Inr (Some \<lparr> product = serviceName a, metrics = [], totalOverageCost = 0 \<rparr>)) = Inr s
      \<and> r2 s = None \<and> vectorize s = None
      \<and> kv s = Some \<lparr> product = ''Workers KV'', metrics = [], totalOverageCost = 0 \<rparr>
      \<and> errors s = [\<lparr> service = ''Vectorize'', message = ''GraphQL error: unknown field'' \<rparr>,
                     \<lparr> service = ''R2 Storage'', message = ''timeout'' \<rparr>]"
proof -
  have h: "getAccountId \<lparr> CLOUDFLARE_ACCOUNT_ID = Some ''acct'', CLOUDFLARE_API_TOKEN = Some ''token'' \<rparr>
      = Inr ''acct''"
    by (simp add: getAccountId_def)
  have p: "mset [KV, Vectorize, R2, Workers, Images, D1, WorkersAI] = mset allAggregators"
    by (simp add: allAggregators_def)
  obtain s where s: "fetchAllUsage \<lparr> CLOUDFLARE_ACCOUNT_ID = Some ''acct'', CLOUDFLARE_API_TOKEN = Some ''token'' \<rparr>
          0 1705320000000 [KV, Vectorize, R2, Workers, Images, D1, WorkersAI]
          (\<lambda>a. if a = R2 then Inl (Error ''timeout'')
               else if a = Vectorize then Inl (Error ''GraphQL error: unknown field'')
               else Inr (Some \<lparr> product = serviceName a, metrics = [], totalOverageCost = 0 \<rparr>)) = Inr s"
    and sl: "\<And>a. slotOf s a = (case (if a = R2 then Inl (Error ''timeout'')
               else if a = Vectorize then Inl (Error ''GraphQL error: unknown field'')
               else Inr (Some \<lparr> product = serviceName a, metrics = [], totalOverageCost = 0 \<rparr>))
              of Inl err \<Rightarrow> None | Inr v \<Rightarrow> v)"
    and er: "errors s = concat (map (serviceErrorsOf
          (\<lambda>a. if a = R2 then Inl (Error ''timeout'')
               else if a = Vectorize then Inl (Error ''GraphQL error: unknown field'')
               else Inr (Some \<lparr> product = serviceName a, metrics = [], totalOverageCost = 0 \<rparr>)))
          [KV, Vectorize, R2, Workers, Images, D1, WorkersAI])"
    using failures_captured [OF h p, of 0 1705320000000
        "\<lambda>a. if a = R2 then Inl (Error ''timeout'')
               else if a = Vectorize then Inl (Error ''GraphQL error: unknown field'')
               else Inr (Some \<lparr> product = serviceName a, metrics = [], totalOverageCost = 0 \<rparr>)"]
    by blast
  have "r2 s = None" "vectorize s = None"
    "kv s = Some \<lparr> product = ''Workers KV'', metrics = [], totalOverageCost = 0 \<rparr>"
    using sl [of R2] sl [of Vectorize] sl [of KV] by (simp_all add: slotOf_def serviceName_def)
  moreover have "errors s = [\<lparr> service = ''Vectorize'', message = ''GraphQL error: unknown field'' \<rparr>,
                     \<lparr> service = ''R2 Storage'', message = ''timeout'' \<rparr>]"
    unfolding er by (simp add: serviceErrorsOf_def serviceName_def)
  ultimately show ?thesis using s by blast
qed

text \<open>
  On a runtime whose local time zone is UTC, the end of the reported billing period has the
  time of day \<^verbatim>\<open>00:00:00.000\<close> at every invocation time.
\<close>

lemma time_of_day_at_midnight:
  "HourFromTime (MakeDate d (MakeTime 0 0 0 0)) = 0"
  "MinFromTime (MakeDate d (MakeTime 0 0 0 0)) = 0"
  "SecFromTime (MakeDate d (MakeTime 0 0 0 0)) = 0"
  "msFromTime (MakeDate d (MakeTime 0 0 0 0)) = 0"
proof -
  have h: "d * 86400000 = d * 24 * 3600000" and m: "d * 86400000 = d * 1440 * 60000"
    and s: "d * 86400000 = d * 86400 * 1000" by simp_all
  show "HourFromTime (MakeDate d (MakeTime 0 0 0 0)) = 0"
    unfolding HourFromTime_def MakeDate_def MakeTime_def msPerDay_def msPerHour_def
    by (simp add: h)
  show "MinFromTime (MakeDate d (MakeTime 0 0 0 0)) = 0"
    unfolding MinFromTime_def MakeDate_def MakeTime_def msPerDay_def msPerMinute_def
    by (simp add: m)
  show "SecFromTime (MakeDate d (MakeTime 0 0 0 0)) = 0"
    unfolding SecFromTime_def MakeDate_def MakeTime_def msPerDay_def msPerSecond_def
    by (simp add: s)
  show "msFromTime (MakeDate d (MakeTime 0 0 0 0)) = 0"
    unfolding msFromTime_def MakeDate_def MakeTime_def msPerDay_def msPerSecond_def
    by (simp add: s)
qed

lemma billing_end_at_midnight:
  assumes "getAccountId e = Inr accountId"
  shows "\<exists>s datePart. fetchAllUsage e 0 now order outs = Inr s
     \<and> bp_end (billingPeriod s) = datePart @ ''T00:00:00.000Z''"
proof -
  have "\<exists>datePart. toISOString (newDate 0 y m d) = datePart @ ''T00:00:00.000Z''" for y m d
    unfolding toISOString_def newDate_def UTC_def Let_def
    by (simp add: time_of_day_at_midnight twoDigits_def threeDigits_def digitChar_def)
  then show ?thesis
    using assms by (simp add: fetchAllUsage_def Let_def)
qed

text \<open>
  Claim C7, evaluated at the invocation time \<^verbatim>\<open>2024-01-15T12:00:00.000Z\<close> on a runtime whose
  local time zone is UTC. The summary reports a billing period that starts at
  \<^verbatim>\<open>2024-01-01T00:00:00.000Z\<close> and ends at \<^verbatim>\<open>2024-01-31T00:00:00.000Z\<close>: the end is the
  first instant of the last day of the month, not its last millisecond. At the same time
  \<^verbatim>\<open>getMonthEnd\<close> of \<^verbatim>\<open>graphql.ts\<close>, which bounds the query window of the Workers aggregator,
  gives \<^verbatim>\<open>2024-01-31T23:59:59.999Z\<close>.
\<close>

theorem billing_period_evaluated:
  "fetchAllUsage \<lparr> CLOUDFLARE_ACCOUNT_ID = Some ''acct'', CLOUDFLARE_API_TOKEN = Some ''token'' \<rparr>
      0 1705320000000 allAggregators (\<lambda>a. Inr None)
   = Inr \<lparr> r2 = None, workers = None, kv = None, d1 = None, images = None, ai = None,
           vectorize = None, errors = [], totalEstimatedCost = 5,
           billingPeriod = \<lparr> bp_start = ''2024-01-01T00:00:00.000Z'',
                             bp_end = ''2024-01-31T00:00:00.000Z'' \<rparr> \<rparr>
   \<and> getMonthStart 1705320000000 = ''2024-01-01T00:00:00.000Z''
   \<and> getMonthEnd 1705320000000 = ''2024-01-31T23:59:59.999Z''"
proof -
  have a: "toISOString (newDate 0 (getFullYear 0 1705320000000) (getMonth 0 1705320000000) 1)
      = ''2024-01-01T00:00:00.000Z''"
    by code_simp
  have b: "toISOString (newDate 0 (getFullYear 0 1705320000000) (getMonth 0 1705320000000 + 1) 0)
      = ''2024-01-31T00:00:00.000Z''"
    by code_simp
  have c: "getMonthStart 1705320000000 = ''2024-01-01T00:00:00.000Z''"
    by code_simp
  have d: "getMonthEnd 1705320000000 = ''2024-01-31T23:59:59.999Z''"
    by code_simp
  show ?thesis
    by (simp add: fetchAllUsage_def getAccountId_def Let_def a b c d slot_eq allAggregators_def
        settle_eq serviceErrorsOf_def WORKERS_PAID_LIMITS_baseCost_def)
qed

end
